theory Spec2Isabelle
  imports Complex_Main
begin

section \<open>Python strings\<close>

text \<open>
  A Python \<open>str\<close> is a sequence of Unicode code points; it is modelled as a list of
  natural numbers, one per code point. \<open>ustr\<close> embeds an ASCII literal; code points
  that cannot be written inside a literal (line feed 10, the quotes 34 and 39, and the
  non-ASCII characters of the source texts) are spliced in as numbers.
\<close>

type_synonym ustring = "nat list"

definition ustr :: "string \<Rightarrow> ustring" where
  "ustr s = map of_char s"

text \<open>
  \<open>str.isspace\<close> of a single character: the code points Python treats as whitespace.
  \<open>str.split()\<close> without argument and \<open>str.strip()\<close> use the same set.
\<close>

definition py_isspace :: "nat \<Rightarrow> bool" where
  "py_isspace c =
     ((9 \<le> c \<and> c \<le> 13) \<or> (28 \<le> c \<and> c \<le> 32) \<or> c = 133 \<or> c = 160 \<or> c = 5760
      \<or> (8192 \<le> c \<and> c \<le> 8202) \<or> c = 8232 \<or> c = 8233 \<or> c = 8239 \<or> c = 8287
      \<or> c = 12288)"

text \<open>\<open>s.split()\<close>: the maximal runs of non-whitespace characters, in order.\<close>

fun split_acc :: "ustring \<Rightarrow> ustring \<Rightarrow> ustring list" where
  "split_acc w [] = (if w = [] then [] else [w])"
| "split_acc w (c # cs) =
     (if py_isspace c then (if w = [] then split_acc [] cs else w # split_acc [] cs)
      else split_acc (w @ [c]) cs)"

definition py_split :: "ustring \<Rightarrow> ustring list" where
  "py_split s = split_acc [] s"

text \<open>
  The number of words of a string, counted directly: the flag tells whether a word is
  open at the current position. It is the length of \<open>py_split\<close> (lemma
  \<open>length_py_split\<close>) and is what the proofs about word counts use.
\<close>

fun wc :: "bool \<Rightarrow> ustring \<Rightarrow> nat" where
  "wc inw [] = (if inw then 1 else 0)"
| "wc inw (c # cs) =
     (if py_isspace c then (if inw then 1 else 0) + wc False cs else wc True cs)"

text \<open>\<open>s.strip()\<close>: leading and trailing whitespace removed.\<close>

definition py_strip :: "ustring \<Rightarrow> ustring" where
  "py_strip s = rev (dropWhile py_isspace (rev (dropWhile py_isspace s)))"

text \<open>\<open>s.split(sep)\<close> for a one-character separator: never empty, pieces may be.\<close>

fun split_on_acc :: "nat \<Rightarrow> ustring \<Rightarrow> ustring \<Rightarrow> ustring list" where
  "split_on_acc sep w [] = [w]"
| "split_on_acc sep w (c # cs) =
     (if c = sep then w # split_on_acc sep [] cs else split_on_acc sep (w @ [c]) cs)"

definition split_on :: "nat \<Rightarrow> ustring \<Rightarrow> ustring list" where
  "split_on sep s = split_on_acc sep [] s"

text \<open>\<open>needle in haystack\<close> for strings: substring test.\<close>

fun starts_with :: "ustring \<Rightarrow> ustring \<Rightarrow> bool" where
  "starts_with [] s = True"
| "starts_with (p # ps) [] = False"
| "starts_with (p # ps) (c # cs) = (p = c \<and> starts_with ps cs)"

fun contains :: "ustring \<Rightarrow> ustring \<Rightarrow> bool" where
  "contains needle [] = (needle = [])"
| "contains needle (c # cs) = (starts_with needle (c # cs) \<or> contains needle cs)"

text \<open>
  \<open>str.lower\<close> is the Unicode case mapping of the Python runtime, a table that is not
  part of the repository. Every function that lowercases takes it as the parameter
  \<open>lower\<close>. \<open>ascii_lower\<close> is the mapping restricted to ASCII letters (all other code
  points unchanged); it agrees with \<open>str.lower\<close> on ASCII text and is the instance used
  where a concrete run is evaluated.
\<close>

definition ascii_lower :: "ustring \<Rightarrow> ustring" where
  "ascii_lower s = map (\<lambda>c. if 65 \<le> c \<and> c \<le> 90 then c + 32 else c) s"

section \<open>Exceptions\<close>

text \<open>
  An exception is represented by its text, \<open>str(e)\<close>, which is the only thing the
  handlers of the source read. A computation that may raise returns \<open>exn + 'a\<close>.
\<close>

datatype exn = Exception (exn_text: ustring)

section \<open>ollama\_story\_generator.py\<close>

text \<open>
  What the Ollama server answers is outside the program. \<open>tags_reply\<close> is the outcome of
  \<open>requests.get(.../api/tags)\<close>, \<open>chat_reply\<close> the outcome of
  \<open>requests.post(.../api/chat)\<close>: the call raises, or returns a status code and a body.
  For the tags the body is the list of model names (\<open>None\<close> when \<open>response.json()\<close> or
  the extraction of the names raises); for the chat it is the string
  \<open>result.get('message', {}).get('content', '')\<close> (\<open>None\<close> when \<open>response.json()\<close>, the
  look-ups or \<open>.strip()\<close> raise).
\<close>

datatype tags_reply = TagsRaised exn | TagsResponse nat "ustring list option"

datatype chat_reply = ChatRaised exn | ChatResponse nat "ustring option"

record chat_request =
  req_model :: ustring
  req_system :: ustring
  req_user :: ustring

text \<open>
  The server: the answer to the tags request, and the answer to the \<open>n\<close>-th chat
  request (counted over the whole run) as a function of the request.
\<close>

record ollama_server =
  tags :: tags_reply
  chat :: "nat \<Rightarrow> chat_request \<Rightarrow> chat_reply"

record OllamaStoryGenerator =
  ollama_host :: ustring
  story_model :: ustring
  available :: bool

definition check_ollama_availability :: "ollama_server \<Rightarrow> ustring \<Rightarrow> bool" where
  "check_ollama_availability srv model =
     (case tags srv of
        TagsRaised e \<Rightarrow> False
      | TagsResponse code body \<Rightarrow>
          (if code = 200 then
             (case body of None \<Rightarrow> False
              | Some model_names \<Rightarrow> list_ex (\<lambda>name. contains model name) model_names)
           else False))"

definition OllamaStoryGenerator_init :: "ollama_server \<Rightarrow> OllamaStoryGenerator" where
  "OllamaStoryGenerator_init srv =
     \<lparr>ollama_host = ustr ''http://localhost:11434'',
      story_model = ustr ''llama3.1:8b'',
      available = check_ollama_availability srv (ustr ''llama3.1:8b'')\<rparr>"

text \<open>
  \<open>_call_ollama\<close>. The list \<open>posts\<close> is the log of the chat requests issued so far; the
  call appends its request to it, whatever the outcome.
\<close>

definition call_ollama ::
  "ollama_server \<Rightarrow> OllamaStoryGenerator \<Rightarrow> chat_request list \<Rightarrow> ustring \<Rightarrow> ustring
     \<Rightarrow> ustring \<times> chat_request list" where
  "call_ollama srv gen posts system_prompt user_prompt =
     (let payload = \<lparr>req_model = story_model gen, req_system = system_prompt,
                      req_user = user_prompt\<rparr>;
          response = chat srv (length posts) payload;
          posts' = posts @ [payload]
      in (case response of
            ChatRaised e \<Rightarrow> ([], posts')
          | ChatResponse code body \<Rightarrow>
              (if code = 200 then
                 (case body of None \<Rightarrow> ([], posts') | Some content \<Rightarrow> (py_strip content, posts'))
               else ([], posts'))))"

definition get_word_target :: "ustring \<Rightarrow> ustring" where
  "get_word_target length_arg =
     (if length_arg = ustr ''short'' then ustr ''300-500''
      else if length_arg = ustr ''medium'' then ustr ''500-1000''
      else if length_arg = ustr ''long'' then ustr ''1000-1500''
      else ustr ''500-1000'')"

text \<open>
  The fixed text of the fallback story, paragraph by paragraph; the first and the fifth
  paragraph are cut where the lowercased prompt is inserted. Paragraphs are separated
  by two line feeds.
\<close>

definition fallback_opening_head :: ustring where
  "fallback_opening_head =
     ustr ''In a world of endless possibilities, the adventure began with ''"

definition fallback_opening_tail :: ustring where
  "fallback_opening_tail =
     ustr ''. What started as an ordinary moment quickly transformed into something '' @
     ustr ''extraordinary that would change everything.''"

definition fallback_discovery :: ustring where
  "fallback_discovery =
     ustr ''Our protagonist discovered that reality was far more complex and '' @
     ustr ''wonderful than they had ever imagined. Each step forward revealed new '' @
     ustr ''mysteries, each challenge overcome led to greater revelations, and each '' @
     ustr ''friend made along the way added depth to a journey of self-discovery.''"

definition fallback_path :: ustring where
  "fallback_path =
     ustr ''The path was neither straight nor easy. Obstacles that seemed '' @
     ustr ''insurmountable became stepping stones to growth. Enemies revealed '' @
     ustr ''unexpected depths. Allies emerged from unlikely places, and wisdom came '' @
     ustr ''from sources both ancient and new.''"

definition fallback_journey :: ustring where
  "fallback_journey =
     ustr ''As the journey progressed, our hero learned that true strength comes '' @
     ustr ''not from individual prowess, but from connections forged with others. '' @
     ustr ''The greatest magic was not in supernatural powers, but in the human '' @
     ustr ''ability to hope, persevere, and find light in darkness.''"

definition fallback_resolution_head :: ustring where
  "fallback_resolution_head =
     ustr ''The resolution was both surprising and inevitable. What began with ''"

definition fallback_resolution_tail :: ustring where
  "fallback_resolution_tail =
     ustr '' became a transformation not just of circumstances, but of character. '' @
     ustr ''The adventure'' @
     [39] @
     ustr ''s end marked a beginning'' @
     [8212] @
     ustr ''the start of a life lived with purpose and courage.''"

definition fallback_conclusion :: ustring where
  "fallback_conclusion =
     ustr ''And so our story concludes, but the ripples would continue to spread, '' @
     ustr ''inspiring others to find their own courage and embark on their own '' @
     ustr ''journeys of discovery.''"

definition generate_fallback_story :: "(ustring \<Rightarrow> ustring) \<Rightarrow> ustring \<Rightarrow> ustring" where
  "generate_fallback_story lower prompt =
     fallback_opening_head @ lower prompt @ fallback_opening_tail @ [10, 10] @
     fallback_discovery @ [10, 10] @
     fallback_path @ [10, 10] @
     fallback_journey @ [10, 10] @
     fallback_resolution_head @ lower prompt @ fallback_resolution_tail @ [10, 10] @
     fallback_conclusion"

definition story_system_prompt :: "ustring \<Rightarrow> ustring" where
  "story_system_prompt length_arg =
     ustr ''You are a master storyteller. Create an original, engaging story that:'' @
     [10] @
     ustr ''- Is completely unique and different from typical stories'' @
     [10] @
     ustr ''- Has unexpected plot twists and creative elements'' @
     [10] @
     ustr ''- Includes rich character development and dialogue'' @
     [10] @
     ustr ''- Is approximately '' @ get_word_target length_arg @ ustr '' words'' @
     [10] @
     ustr ''Be creative and avoid clich'' @ [233] @ ustr ''s.''"

definition story_full_prompt :: "ustring \<Rightarrow> ustring" where
  "story_full_prompt user_prompt =
     ustr ''Based on this idea: '' @ [34] @ user_prompt @ [34, 10, 10] @
     ustr ''Create an original story that is memorable and distinctive.''"

text \<open>
  \<open>generate_story\<close>. Nothing between \<open>try\<close> and \<open>except\<close> raises (\<open>_call_ollama\<close>
  catches its own exceptions), so the handler, which returns the fallback story as
  well, has no branch of its own.
\<close>

definition generate_story ::
  "(ustring \<Rightarrow> ustring) \<Rightarrow> ollama_server \<Rightarrow> OllamaStoryGenerator \<Rightarrow> chat_request list
     \<Rightarrow> ustring \<Rightarrow> ustring \<Rightarrow> ustring \<times> chat_request list" where
  "generate_story lower srv gen posts user_prompt length_arg =
     (if \<not> available gen then (generate_fallback_story lower user_prompt, posts)
      else
        (let (story, posts') =
               call_ollama srv gen posts (story_system_prompt length_arg)
                 (story_full_prompt user_prompt)
         in if story \<noteq> [] \<and> length (py_split story) > 100 then (story, posts')
            else (generate_fallback_story lower user_prompt, posts')))"

text \<open>The descriptions the two fallback functions choose from.\<close>

definition knight_description :: ustring where
  "knight_description =
     ustr ''A determined knight in polished steel armor with a noble bearing, '' @
     ustr ''strong jawline, and piercing blue eyes. Wears a deep red cloak and '' @
     ustr ''carries an ornate sword.''"

definition wizard_description :: ustring where
  "wizard_description =
     ustr ''An ancient wizard with flowing silver robes, long white beard, deep '' @
     ustr ''violet eyes, and a tall staff crowned with a glowing crystal orb.''"

definition explorer_description :: ustring where
  "explorer_description =
     ustr ''A confident space explorer in a sleek uniform with integrated '' @
     ustr ''technology, sharp features, and advanced equipment.''"

definition adventurer_description :: ustring where
  "adventurer_description =
     ustr ''A brave adventurer with an athletic build, practical traveling '' @
     ustr ''clothes, and the confident bearing of someone ready for any challenge.''"

definition forest_description :: ustring where
  "forest_description =
     ustr ''An ancient enchanted forest with towering oak trees, golden sunlight '' @
     ustr ''streaming through emerald canopy, and crystal streams.''"

definition castle_description :: ustring where
  "castle_description =
     ustr ''A majestic medieval castle perched on a cliff, with grey stone towers, '' @
     ustr ''colorful banners, and warm light from arched windows.''"

definition space_description :: ustring where
  "space_description =
     ustr ''The infinite vastness of space with countless stars, spectacular '' @
     ustr ''nebulae in brilliant colors, and distant spiral galaxies.''"

definition landscape_description :: ustring where
  "landscape_description =
     ustr ''A breathtaking landscape under a dramatic sunset sky with rolling '' @
     ustr ''hills, ancient ruins, and a winding path toward adventure.''"

definition fallback_character_description :: "(ustring \<Rightarrow> ustring) \<Rightarrow> ustring \<Rightarrow> ustring" where
  "fallback_character_description lower story =
     (let story_lower = lower story in
      if contains (ustr ''knight'') story_lower \<or> contains (ustr ''sword'') story_lower then
        knight_description
      else if contains (ustr ''wizard'') story_lower \<or> contains (ustr ''magic'') story_lower then
        wizard_description
      else if contains (ustr ''space'') story_lower \<or> contains (ustr ''star'') story_lower then
        explorer_description
      else adventurer_description)"

definition fallback_scene_description :: "(ustring \<Rightarrow> ustring) \<Rightarrow> ustring \<Rightarrow> ustring" where
  "fallback_scene_description lower story =
     (let story_lower = lower story in
      if contains (ustr ''forest'') story_lower \<or> contains (ustr ''tree'') story_lower then
        forest_description
      else if contains (ustr ''castle'') story_lower \<or> contains (ustr ''tower'') story_lower then
        castle_description
      else if contains (ustr ''space'') story_lower \<or> contains (ustr ''star'') story_lower then
        space_description
      else landscape_description)"

definition character_system_prompt :: ustring where
  "character_system_prompt =
     ustr ''Create a detailed visual description of the main character for AI '' @
     ustr ''image generation. Include physical appearance, clothing, and mood.''"

definition character_user_prompt :: "ustring \<Rightarrow> ustring" where
  "character_user_prompt story =
     ustr ''Story: '' @ take 1000 story @ ustr ''...'' @ [10, 10] @
     ustr ''Describe the main character visually in under 100 words.''"

definition scene_system_prompt :: ustring where
  "scene_system_prompt =
     ustr ''Create a detailed scene description for AI image generation. Focus on '' @
     ustr ''environment, lighting, and atmosphere.''"

definition scene_user_prompt :: "ustring \<Rightarrow> ustring" where
  "scene_user_prompt story =
     ustr ''Story: '' @ take 1000 story @ ustr ''...'' @ [10, 10] @
     ustr ''Describe the main setting visually in under 100 words.''"

definition generate_character_description ::
  "(ustring \<Rightarrow> ustring) \<Rightarrow> ollama_server \<Rightarrow> OllamaStoryGenerator \<Rightarrow> chat_request list
     \<Rightarrow> ustring \<Rightarrow> ustring \<times> chat_request list" where
  "generate_character_description lower srv gen posts story =
     (if \<not> available gen then (fallback_character_description lower story, posts)
      else
        (let (description, posts') =
               call_ollama srv gen posts character_system_prompt (character_user_prompt story)
         in if description \<noteq> [] then (description, posts')
            else (fallback_character_description lower story, posts')))"

definition generate_scene_description ::
  "(ustring \<Rightarrow> ustring) \<Rightarrow> ollama_server \<Rightarrow> OllamaStoryGenerator \<Rightarrow> chat_request list
     \<Rightarrow> ustring \<Rightarrow> ustring \<times> chat_request list" where
  "generate_scene_description lower srv gen posts story =
     (if \<not> available gen then (fallback_scene_description lower story, posts)
      else
        (let (description, posts') =
               call_ollama srv gen posts scene_system_prompt (scene_user_prompt story)
         in if description \<noteq> [] then (description, posts')
            else (fallback_scene_description lower story, posts')))"

section \<open>models.py\<close>

text \<open>
  An uploaded file as the views read it: its name, its size in bytes, and its content
  (an identifier: the program never looks inside, it hands the file to a transcriber).
\<close>

record uploaded_file =
  upload_name :: ustring
  upload_size :: nat
  upload_data :: nat

datatype input_method = TextInput | AudioInput | BothInput

text \<open>\<open>STATUS_CHOICES\<close>.\<close>

datatype status = Pending | Transcribing | Processing | Completed | Error

text \<open>
  \<open>StoryGeneration\<close>. The primary key is a UUID, kept as its text \<open>str(id)\<close>. An
  image field is \<open>None\<close> while it has no file and otherwise holds the name under which
  the storage keeps the file. The timestamps and the engagement fields, which no
  function below reads or writes, are left out.
\<close>

record StoryGeneration =
  story_id :: ustring
  user :: "nat option"
  prompt :: ustring
  audio_file :: "uploaded_file option"
  transcribed_text :: ustring
  input_method :: input_method
  story_text :: ustring
  character_description :: ustring
  background_description :: ustring
  character_image :: "ustring option"
  background_image :: "ustring option"
  composed_image :: "ustring option"
  story_word_count :: int
  ai_model_used :: ustring
  image_model_used :: ustring
  generation_time :: "real option"
  status :: status
  error_message :: ustring

text \<open>A new instance: the field defaults of the model, with the given key.\<close>

definition StoryGeneration_init :: "ustring \<Rightarrow> StoryGeneration" where
  "StoryGeneration_init new_id =
     \<lparr>story_id = new_id, user = None, prompt = [], audio_file = None,
      transcribed_text = [], input_method = TextInput, story_text = [],
      character_description = [], background_description = [],
      character_image = None, background_image = None, composed_image = None,
      story_word_count = 0, ai_model_used = [], image_model_used = [],
      generation_time = None, status = Pending, error_message = []\<rparr>"

text \<open>\<open>os.path.join\<close> of two components on a POSIX system.\<close>

definition path_join :: "ustring \<Rightarrow> ustring \<Rightarrow> ustring" where
  "path_join a b =
     (if starts_with (ustr ''/'') b then b
      else if a = [] \<or> last a = 47 then a @ b
      else a @ ustr ''/'' @ b)"

text \<open>
  \<open>story_image_path\<close>, the \<open>upload_to\<close> of the three image fields. The fresh
  \<open>uuid.uuid4()\<close> is the parameter \<open>uuid\<close> (its text).
\<close>

definition story_image_path :: "ustring \<Rightarrow> StoryGeneration \<Rightarrow> ustring \<Rightarrow> ustring" where
  "story_image_path uuid instance filename =
     (let ext = last (split_on 46 filename);
          filename' = uuid @ ustr ''.'' @ ext
      in path_join (path_join (path_join (ustr ''generated'') (ustr ''stories''))
                      (story_id instance)) filename')"

definition get_input_text :: "StoryGeneration \<Rightarrow> ustring" where
  "get_input_text self =
     (if input_method self = AudioInput then transcribed_text self
      else if input_method self = BothInput then
        py_strip (prompt self @ ustr '' '' @ transcribed_text self)
      else prompt self)"

text \<open>
  The table of stories is the list of its rows. \<open>Model.save\<close> of the framework writes
  the row with the instance's key if there is one and inserts the instance otherwise;
  \<open>objects.create\<close> inserts. Writes to the database are taken to succeed.
\<close>

definition db_write :: "StoryGeneration list \<Rightarrow> StoryGeneration \<Rightarrow> StoryGeneration list" where
  "db_write table self =
     (if list_ex (\<lambda>r. story_id r = story_id self) table
      then map (\<lambda>r. if story_id r = story_id self then self else r) table
      else table @ [self])"

text \<open>
  \<open>StoryGeneration.save\<close>: the instance after the call, and the table after it.
  \<open>force_insert\<close> is the keyword argument that \<open>objects.create\<close> passes on.
\<close>

definition save :: "bool \<Rightarrow> StoryGeneration list \<Rightarrow> StoryGeneration
    \<Rightarrow> StoryGeneration \<times> StoryGeneration list" where
  "save force_insert table self =
     (let self' = (if story_text self \<noteq> []
                   then self\<lparr>story_word_count := int (length (py_split (story_text self)))\<rparr>
                   else self)
      in (self', if force_insert then table @ [self'] else db_write table self'))"

section \<open>audio\_processor.py\<close>

text \<open>\<open>str(n)\<close> of a non-negative integer: its decimal digits.\<close>

fun str_of_nat :: "nat \<Rightarrow> ustring" where
  "str_of_nat n = (if n < 10 then [48 + n] else str_of_nat (n div 10) @ [48 + n mod 10])"

declare str_of_nat.simps [simp del]

definition MAX_FILE_SIZE :: nat where
  "MAX_FILE_SIZE = 10 * 1024 * 1024"

definition supported_extensions :: "ustring list" where
  "supported_extensions =
     [ustr ''wav'', ustr ''mp3'', ustr ''mp4'', ustr ''m4a'', ustr ''flac'', ustr ''ogg'',
      ustr ''webm'']"

text \<open>\<open>sep.join(xs)\<close>.\<close>

fun join :: "ustring \<Rightarrow> ustring list \<Rightarrow> ustring" where
  "join sep [] = []"
| "join sep [x] = x"
| "join sep (x # y # ys) = x @ sep @ join sep (y # ys)"

text \<open>
  \<open>AudioValidator.validate_audio_file\<close>. The file object always has the attributes
  the method reads, so its \<open>except\<close> branch has no case here.
\<close>

definition validate_audio_file :: "(ustring \<Rightarrow> ustring) \<Rightarrow> uploaded_file \<Rightarrow> bool \<times> ustring" where
  "validate_audio_file lower audio =
     (if upload_size audio > MAX_FILE_SIZE then
        (False, ustr ''File too large. Maximum size is '' @
                str_of_nat (MAX_FILE_SIZE div (1024 * 1024)) @ ustr ''MB'')
      else if upload_name audio \<noteq> []
              \<and> last (split_on 46 (lower (upload_name audio))) \<notin> set supported_extensions then
        (False, ustr ''Unsupported file format. Supported: '' @
                join (ustr '', '') supported_extensions)
      else (True, ustr ''Valid audio file''))"

section \<open>gpu\_image\_generator.py\<close>

text \<open>
  Images are modelled by the operations of the imaging library that build them: a new
  canvas, a drawing step, an enhancement, a change of mode, a resize, a paste. A
  \<open>Raster\<close> is an image whose pixels come from outside (the diffusion pipeline, a file
  that was on disk); it carries its width, its height and an identifier of its content.
  Writing an image as PNG is lossless, so the bytes of a PNG file are represented by the
  image they encode.
\<close>

type_synonym rgb = "nat \<times> nat \<times> nat"

datatype mode = RGB | RGBA

datatype font = TrueType ustring nat | DefaultFont

datatype shape =
    Line "int \<times> int" "int \<times> int"
  | Ellipse int int int int
  | Rectangle int int int int
  | Polygon "(int \<times> int) list"
  | Text "int \<times> int" ustring font

datatype enhancer = Sharpness | Contrast | Color

datatype image =
    Raster nat nat nat
  | New mode nat nat rgb
  | Draw image shape rgb
  | Enhance image enhancer real
  | Convert image mode
  | Resize image nat nat
  | Paste image image int int

text \<open>\<open>image.size\<close>: width and height.\<close>

fun size_of :: "image \<Rightarrow> nat \<times> nat" where
  "size_of (Raster w h d) = (w, h)"
| "size_of (New m w h c) = (w, h)"
| "size_of (Draw img sh c) = size_of img"
| "size_of (Enhance img e f) = size_of img"
| "size_of (Convert img m) = size_of img"
| "size_of (Resize img w h) = (w, h)"
| "size_of (Paste base overlay x y) = size_of base"

datatype file_data = PNG image | Unreadable

datatype image_kind = CharacterImage | BackgroundImage

text \<open>
  What the generator finds around it: whether CUDA is there (\<open>GPU_AVAILABLE\<close>), the
  outcome of the \<open>n\<close>-th attempt to load the diffusion pipeline, the outcome of running
  the pipeline, whether the font file \<open>arial.ttf\<close> can be loaded, the bounding box the
  default font gives a text, and the sizes of which the library cannot build an image
  (\<open>resize_fault\<close>: the exception \<open>Image.resize\<close> ends with when the memory for the
  new image is refused or a side does not fit the integers of the C library).
  The prompt and the negative prompt handed to the pipeline are functions of the kind
  of image, the description and the style, so the outcome of a run is given as a
  function of these three.
\<close>

record image_runtime =
  GPU_AVAILABLE :: bool
  from_pretrained :: "nat \<Rightarrow> exn option"
  run_pipeline :: "image_kind \<Rightarrow> ustring \<Rightarrow> ustring \<Rightarrow> exn + image"
  arial :: bool
  textbbox :: "ustring \<Rightarrow> int \<times> int \<times> int \<times> int"
  resize_fault :: "nat \<Rightarrow> nat \<Rightarrow> exn option"

record GPUImageGenerator =
  device :: ustring
  pipeline :: bool
  gpu_available :: bool
  load_attempts :: nat

definition GPUImageGenerator_init :: "image_runtime \<Rightarrow> GPUImageGenerator" where
  "GPUImageGenerator_init rt =
     \<lparr>device = (if GPU_AVAILABLE rt then ustr ''cuda'' else ustr ''cpu''),
      pipeline = False,
      gpu_available = GPU_AVAILABLE rt,
      load_attempts = 0\<rparr>"

text \<open>
  \<open>_load_pipeline\<close>: the pipeline is loaded once and kept; a failed load is caught and
  reported as \<open>False\<close>.
\<close>

definition load_pipeline :: "image_runtime \<Rightarrow> GPUImageGenerator \<Rightarrow> bool \<times> GPUImageGenerator" where
  "load_pipeline rt self =
     (if \<not> gpu_available self then (False, self)
      else if pipeline self then (True, self)
      else
        (case from_pretrained rt (load_attempts self) of
           Some e \<Rightarrow> (False, self\<lparr>load_attempts := Suc (load_attempts self)\<rparr>)
         | None \<Rightarrow> (True, self\<lparr>pipeline := True,
                                 load_attempts := Suc (load_attempts self)\<rparr>)))"

definition enhance_image :: "image \<Rightarrow> image" where
  "enhance_image img = Enhance (Enhance (Enhance img Sharpness 1.2) Contrast 1.1) Color 1.05"

text \<open>
  The placeholders. In \<open>int(70 + (y / 512) * 100)\<close> the quotient by a power of two and
  its products are exact, so the value is \<open>70 + y * 100 div 512\<close>; likewise for the
  other colour ramps.
\<close>

definition load_font :: "image_runtime \<Rightarrow> nat \<Rightarrow> font" where
  "load_font rt sz = (if arial rt then TrueType (ustr ''arial.ttf'') sz else DefaultFont)"

definition character_gradient :: "image \<Rightarrow> image" where
  "character_gradient img =
     foldl (\<lambda>im y. Draw im (Line (0, int y) (512, int y))
                     (70 + y * 100 div 512, 90 + y * 120 div 512, 140 + y * 100 div 512))
       img [0..<512]"

definition create_artistic_character_placeholder :: "image_runtime \<Rightarrow> ustring \<Rightarrow> file_data" where
  "create_artistic_character_placeholder rt description =
     (let img0 = character_gradient (New RGB 512 512 (0, 0, 0));
          center_x = 256; center_y = 300;
          img1 = Draw img0 (Ellipse (center_x - 50) (center_y - 100) (center_x + 50) (center_y - 10))
                   (40, 40, 50);
          img2 = Draw img1 (Rectangle (center_x - 40) (center_y - 10) (center_x + 40) (center_y + 120))
                   (50, 50, 60);
          img3 = Draw img2 (Rectangle (center_x - 70) (center_y + 20) (center_x - 40) (center_y + 100))
                   (45, 45, 55);
          img4 = Draw img3 (Rectangle (center_x + 40) (center_y + 20) (center_x + 70) (center_y + 100))
                   (45, 45, 55);
          fnt = load_font rt 32;
          img5 = Draw img4 (Text (100, 450) (ustr ''AI CHARACTER'') fnt) (255, 255, 255);
          img6 = Draw img5 (Text (150, 480) (ustr ''(Loading...)'') fnt) (200, 200, 200)
      in PNG img6)"

definition sky_gradient :: "image \<Rightarrow> image" where
  "sky_gradient img =
     foldl (\<lambda>im y. Draw im (Line (0, int y) (768, int y))
                     (135 + y * 100 div 256, 206 + y * 40 div 256,
                      (235 * 256 - y * 100) div 256))
       img [0..<256]"

definition ground_gradient :: "image \<Rightarrow> image" where
  "ground_gradient img =
     foldl (\<lambda>im y. Draw im (Line (0, int y) (768, int y))
                     (60 + (y - 256) * 80 div 256, 120 + (y - 256) * 60 div 256,
                      40 + (y - 256) * 20 div 256))
       img [256..<512]"

definition create_artistic_background_placeholder :: "image_runtime \<Rightarrow> ustring \<Rightarrow> file_data" where
  "create_artistic_background_placeholder rt description =
     (let img0 = ground_gradient (sky_gradient (New RGB 768 512 (0, 0, 0)));
          points = [(0, 200), (150, 120), (300, 180), (450, 100), (600, 160), (768, 140),
                    (768, 256), (0, 256)];
          img1 = Draw img0 (Polygon points) (80, 80, 120);
          fnt = load_font rt 48;
          img2 = Draw img1 (Text (250, 200) (ustr ''AI BACKGROUND'') fnt) (255, 255, 255);
          img3 = Draw img2 (Text (300, 250) (ustr ''(Loading...)'') fnt) (220, 220, 220)
      in PNG img3)"

text \<open>\<open>_create_placeholder\<close>: a grey canvas with the text centred on it.\<close>

definition create_placeholder :: "image_runtime \<Rightarrow> ustring \<Rightarrow> nat \<Rightarrow> nat \<Rightarrow> file_data" where
  "create_placeholder rt txt width height =
     (let img = New RGB width height (120, 120, 120);
          (x0, y0, x1, y1) = textbbox rt txt;
          text_width = x1 - x0;
          text_height = y1 - y0;
          x = (int width - text_width) div 2;
          y = (int height - text_height) div 2
      in PNG (Draw img (Text (x, y) txt DefaultFont) (255, 255, 255)))"

text \<open>
  \<open>generate_character_image\<close> and \<open>generate_background_image\<close>: the image of the
  pipeline when the GPU is there, the pipeline loads and the run succeeds; the
  placeholder in every other case. The result comes with the generator, whose
  pipeline may have been loaded.
\<close>

definition generate_character_image ::
  "image_runtime \<Rightarrow> GPUImageGenerator \<Rightarrow> ustring \<Rightarrow> ustring \<Rightarrow> file_data \<times> GPUImageGenerator" where
  "generate_character_image rt self description style =
     (if gpu_available self then
        (let (loaded, self') = load_pipeline rt self in
         if loaded then
           (case run_pipeline rt CharacterImage description style of
              Inr result \<Rightarrow> (PNG (enhance_image result), self')
            | Inl e \<Rightarrow> (create_artistic_character_placeholder rt description, self'))
         else (create_artistic_character_placeholder rt description, self'))
      else (create_artistic_character_placeholder rt description, self))"

definition generate_background_image ::
  "image_runtime \<Rightarrow> GPUImageGenerator \<Rightarrow> ustring \<Rightarrow> ustring \<Rightarrow> file_data \<times> GPUImageGenerator" where
  "generate_background_image rt self description style =
     (if gpu_available self then
        (let (loaded, self') = load_pipeline rt self in
         if loaded then
           (case run_pipeline rt BackgroundImage description style of
              Inr result \<Rightarrow> (PNG (enhance_image result), self')
            | Inl e \<Rightarrow> (create_artistic_background_placeholder rt description, self'))
         else (create_artistic_background_placeholder rt description, self'))
      else (create_artistic_background_placeholder rt description, self))"

text \<open>
  The file system as the imaging library sees it: a list of named files, the newest
  first. A file is \<open>PNG img\<close> when the library opens it and decodes the image \<open>img\<close>
  from it, and \<open>Unreadable\<close> when it does not: the file is not an image, is
  truncated, or is larger than the library agrees to decode.
  \<open>Image.open(path).convert('RGBA')\<close> raises when there is no file of that name or
  when the file is unreadable.
\<close>

type_synonym file_system = "(ustring \<times> file_data) list"

definition image_open :: "file_system \<Rightarrow> ustring \<Rightarrow> exn + image" where
  "image_open fs path =
     (case map_of fs path of
        None \<Rightarrow> Inl (Exception (ustr ''No such file or directory''))
      | Some Unreadable \<Rightarrow> Inl (Exception (ustr ''cannot identify image file''))
      | Some (PNG img) \<Rightarrow> Inr (Convert img RGBA))"

text \<open>
  \<open>Image.resize\<close>: the library returns a copy when the size is unchanged, rejects a
  width or height below one, and has to build an image of the new size otherwise,
  which raises for the sizes the runtime cannot provide.
\<close>

definition resize :: "image_runtime \<Rightarrow> image \<Rightarrow> nat \<Rightarrow> nat \<Rightarrow> exn + image" where
  "resize rt img w h =
     (if size_of img = (w, h) then Inr img
      else if w < 1 \<or> h < 1 then Inl (Exception (ustr ''height and width must be > 0''))
      else (case resize_fault rt w h of
              Some e \<Rightarrow> Inl e
            | None \<Rightarrow> Inr (Resize img w h)))"

text \<open>
  The arithmetic of \<open>int(w * (ch / h))\<close>. The interpreter computes in IEEE 754 double
  precision: a positive double is \<open>m / 2 ^ s\<close> with a mantissa \<open>m\<close> of 53 bits, written
  here as the pair \<open>(m, s)\<close>. \<open>bitlen n\<close> is the number of bits of \<open>n\<close>, and
  \<open>rne_div p d\<close> the quotient \<open>p / d\<close> rounded to the nearest integer, ties to even.
  The quotient \<open>a / b\<close> of two integers is the exact quotient rounded to 53 bits
  (\<open>float_div\<close>): \<open>s\<close> is the shift that brings \<open>a * 2 ^ s / b\<close> between \<open>2 ^ 52\<close> and
  \<open>2 ^ 53\<close>, and \<open>m\<close> is that number rounded. The product of the integer \<open>w\<close> with the
  double \<open>m / 2 ^ s\<close> is the exact product \<open>w * m / 2 ^ s\<close> with \<open>w * m\<close> rounded to its 53
  leading bits, and \<open>int\<close> drops the fraction (\<open>mul_trunc\<close>). The integers of the
  program are sides of images, far below \<open>2 ^ 53\<close>, so each of them is a double and no
  quotient leaves the range of the normal doubles.
\<close>

fun bitlen :: "nat \<Rightarrow> nat" where
  "bitlen n = (if n = 0 then 0 else Suc (bitlen (n div 2)))"

declare bitlen.simps [simp del]

definition rne_div :: "nat \<Rightarrow> nat \<Rightarrow> nat" where
  "rne_div p d =
     (let q = p div d; r = p mod d
      in if 2 * r < d then q
         else if d < 2 * r then q + 1
         else if even q then q else q + 1)"

definition float_div :: "nat \<Rightarrow> nat \<Rightarrow> nat \<times> nat" where
  "float_div a b =
     (let s1 = 52 + bitlen b - bitlen a;
          s = (if 2 ^ 52 * b \<le> a * 2 ^ s1 then s1 else Suc s1)
      in (rne_div (a * 2 ^ s) b, s))"

definition mul_trunc :: "nat \<Rightarrow> nat \<times> nat \<Rightarrow> nat" where
  "mul_trunc w f =
     (case f of (m, s) \<Rightarrow>
        (let p = w * m;
             t = bitlen p - 53
         in rne_div p (2 ^ t) * 2 ^ t div 2 ^ s))"

text \<open>\<open>int(w * (ch / h))\<close> for \<open>h > 0\<close>; the quotient \<open>0 / h\<close> is \<open>0.0\<close>.\<close>

definition scale_width :: "nat \<Rightarrow> nat \<Rightarrow> nat \<Rightarrow> nat" where
  "scale_width w ch h = (if ch = 0 then 0 else mul_trunc w (float_div ch h))"

text \<open>
  \<open>compose_images\<close>. \<open>int(bg_height * 0.8)\<close> is \<open>bg_height * 4 div 5\<close> and
  \<open>int(bg_width * 0.25)\<close> is \<open>bg_width div 4\<close> for every size an image can have (the
  rounding error of the product is far below the distance of \<open>0.8 * bg_height\<close> to the
  next integer above it). The width of the scaled character is \<open>scale_width\<close>; the
  division in it raises when the character image has height 0. Every exception ends
  in the placeholder.
\<close>

definition compose_images :: "image_runtime \<Rightarrow> file_system \<Rightarrow> ustring \<Rightarrow> ustring \<Rightarrow> file_data" where
  "compose_images rt fs char_path bg_path =
     (case image_open fs char_path of
        Inl e \<Rightarrow> create_placeholder rt (ustr ''COMPOSED SCENE'') 768 512
      | Inr char_img \<Rightarrow>
     (case image_open fs bg_path of
        Inl e \<Rightarrow> create_placeholder rt (ustr ''COMPOSED SCENE'') 768 512
      | Inr bg_img \<Rightarrow>
          (let (bg_width, bg_height) = size_of bg_img;
               char_height = bg_height * 4 div 5
           in if snd (size_of char_img) = 0
              then create_placeholder rt (ustr ''COMPOSED SCENE'') 768 512
              else
                (let char_width = scale_width (fst (size_of char_img)) char_height
                                    (snd (size_of char_img))
                 in case resize rt char_img char_width char_height of
                      Inl e \<Rightarrow> create_placeholder rt (ustr ''COMPOSED SCENE'') 768 512
                    | Inr char_img' \<Rightarrow>
                        (let char_x = int (bg_width div 4);
                             char_y = int bg_height - int char_height;
                             final_img = Paste bg_img char_img' char_x char_y
                         in PNG (Convert final_img RGB))))))"

section \<open>views.py\<close>

text \<open>
  The surroundings of a request: the case mapping of the runtime, whether the stories
  table exists (\<open>table_exists()\<close>), whether the audio libraries import
  (\<open>check_audio_support()\<close>), what the two transcribers answer, the Ollama server, the
  imaging runtime, the UUIDs that \<open>uuid.uuid4()\<close> draws (the \<open>n\<close>-th draw), whether
  the file storage refuses to write a name, whether importing the generator modules
  fails, and the readings of \<open>time.time()\<close>.
\<close>

record site =
  str_lower :: "ustring \<Rightarrow> ustring"
  table_exists :: bool
  check_audio_support :: bool
  whisper_transcribe :: "uploaded_file \<Rightarrow> exn + ustring"
  recognize_google :: "uploaded_file \<Rightarrow> exn + ustring"
  ollama :: ollama_server
  imaging :: image_runtime
  uuid4 :: "nat \<Rightarrow> ustring"
  storage_fault :: "ustring \<Rightarrow> exn option"
  import_fault :: "exn option"
  clock :: "nat \<Rightarrow> real"

datatype level = MsgError | MsgSuccess

text \<open>
  What a request changes: the table of stories, the stored image files, the chat
  requests sent to Ollama, the number of transcriptions started, the number of UUIDs
  drawn, and the flash messages. The upload kept in \<open>audio_file\<close> is written to the
  storage as well, under a name with a UUID of its own; that file and that UUID are
  not part of this state, and the statements below speak of the files and UUIDs of
  a generation relative to the state in which the generation starts.
\<close>

record world =
  table :: "StoryGeneration list"
  media :: file_system
  posts :: "chat_request list"
  transcriptions :: nat
  uuids :: nat
  flashes :: "(level \<times> ustring) list"

text \<open>
  The request: the form fields (\<open>None\<close> when absent), the uploaded audio file, and the
  authenticated user. The framework puts a file in \<open>request.FILES\<close> only when it has a
  file name, so an attached file counts as true in a condition.
\<close>

record request =
  POST_prompt :: "ustring option"
  POST_story_length :: "ustring option"
  POST_image_style :: "ustring option"
  FILES_audio_file :: "uploaded_file option"
  authenticated_user :: "nat option"

datatype response = RedirectIndex | RedirectResult ustring

definition messages_add :: "level \<Rightarrow> ustring \<Rightarrow> world \<Rightarrow> world" where
  "messages_add lvl msg w = w\<lparr>flashes := flashes w @ [(lvl, msg)]\<rparr>"

text \<open>\<open>story.save()\<close> on the table of the world.\<close>

definition story_save :: "world \<Rightarrow> StoryGeneration \<Rightarrow> StoryGeneration \<times> world" where
  "story_save w story = (let (story', t) = save False (table w) story in (story', w\<lparr>table := t\<rparr>))"

text \<open>
  \<open>_safe_transcribe_audio\<close>: Whisper first, and the Google recogniser when anything
  goes wrong with it; what the second raises leaves the function.
\<close>

definition safe_transcribe_audio :: "site \<Rightarrow> world \<Rightarrow> uploaded_file \<Rightarrow> (exn + ustring) \<times> world" where
  "safe_transcribe_audio env w audio =
     (let w' = w\<lparr>transcriptions := Suc (transcriptions w)\<rparr>
      in (case whisper_transcribe env audio of
            Inr txt \<Rightarrow> (Inr txt, w')
          | Inl e \<Rightarrow> (recognize_google env audio, w')))"

text \<open>The \<open>except\<close> branch of \<open>_handle_audio_input\<close>.\<close>

definition audio_failed :: "exn \<Rightarrow> world \<Rightarrow> StoryGeneration \<Rightarrow> bool \<times> StoryGeneration \<times> world" where
  "audio_failed e w story =
     (let story1 = story\<lparr>status := Error,
                          error_message := ustr ''Audio transcription failed: '' @ exn_text e\<rparr>;
          (story2, w2) = story_save w story1
      in (False, story2, messages_add MsgError (ustr ''Audio transcription failed'') w2))"

definition handle_audio_input ::
  "site \<Rightarrow> world \<Rightarrow> StoryGeneration \<Rightarrow> uploaded_file \<Rightarrow> bool \<times> StoryGeneration \<times> world" where
  "handle_audio_input env w story audio =
     (if upload_size audio > 10 * 1024 * 1024 then
        (let story1 = story\<lparr>status := Error,
                             error_message := ustr ''Audio file too large (max 10MB)''\<rparr>;
             (story2, w2) = story_save w story1
         in (False, story2, messages_add MsgError (ustr ''Audio file too large'') w2))
      else
        (let story1 = story\<lparr>audio_file := Some audio, status := Transcribing\<rparr>;
             (story2, w2) = story_save w story1
         in if \<not> check_audio_support env then
              audio_failed (Exception (ustr ''Audio processing not available'')) w2 story2
            else
              (case safe_transcribe_audio env w2 audio of
                 (Inl e, w3) \<Rightarrow> audio_failed e w3 story2
               | (Inr transcribed, w3) \<Rightarrow>
                   (let story3 = story2\<lparr>transcribed_text := transcribed\<rparr>;
                        (story4, w4) = story_save w3 story3
                    in (True, story4,
                        messages_add MsgSuccess ([9989] @ ustr '' Audio transcribed!'') w4)))))"

text \<open>
  \<open>FieldFile.save(name, content, save=False)\<close> of an image field of the story: the
  framework asks the field's \<open>upload_to\<close>, here \<open>story_image_path\<close>, for the name to
  store the content under, writes the file, and gives the stored name back to be kept
  in the field. The write may be refused by the storage.
\<close>

definition field_file_save ::
  "site \<Rightarrow> world \<Rightarrow> StoryGeneration \<Rightarrow> ustring \<Rightarrow> file_data \<Rightarrow> (exn + ustring) \<times> world" where
  "field_file_save env w instance name content =
     (let stored = story_image_path (uuid4 env (uuids w)) instance name;
          w1 = w\<lparr>uuids := Suc (uuids w)\<rparr>
      in (case storage_fault env stored of
            Some e \<Rightarrow> (Inl e, w1)
          | None \<Rightarrow> (Inr stored, w1\<lparr>media := (stored, content) # media w1\<rparr>)))"

text \<open>An image field is true in a condition when it holds a non-empty name.\<close>

definition has_file :: "ustring option \<Rightarrow> bool" where
  "has_file f = (case f of None \<Rightarrow> False | Some n \<Rightarrow> n \<noteq> [])"

text \<open>
  The body of the \<open>try\<close> of \<open>_generate_enhanced_story_content\<close>, in two parts. Each
  returns the exception that ended it, if any, with the story and the world as they
  were at that moment: the fields assigned before an exception stay assigned.
\<close>

definition generate_texts ::
  "site \<Rightarrow> world \<Rightarrow> StoryGeneration \<Rightarrow> ustring \<Rightarrow> ustring \<Rightarrow> StoryGeneration \<times> world" where
  "generate_texts env w story input_text length_arg =
     (let story_generator = OllamaStoryGenerator_init (ollama env);
          (txt, p1) = generate_story (str_lower env) (ollama env) story_generator (posts w)
                        input_text length_arg;
          story1 = story\<lparr>story_text := txt,
                          ai_model_used := ustr ''Ollama ('' @ story_model story_generator
                                             @ ustr '')''\<rparr>;
          (cd, p2) = generate_character_description (str_lower env) (ollama env)
                       story_generator p1 (story_text story1);
          story2 = story1\<lparr>character_description := cd\<rparr>;
          (bd, p3) = generate_scene_description (str_lower env) (ollama env)
                       story_generator p2 (story_text story2);
          story3 = story2\<lparr>background_description := bd\<rparr>
      in (story3, w\<lparr>posts := p3\<rparr>))"

definition compose_scene ::
  "site \<Rightarrow> world \<Rightarrow> StoryGeneration \<Rightarrow> exn option \<times> StoryGeneration \<times> world" where
  "compose_scene env w story =
     (if has_file (character_image story) \<and> has_file (background_image story) then
        (case (character_image story, background_image story) of
           (Some char_path, Some bg_path) \<Rightarrow>
             (let composed_data = compose_images (imaging env) (media w) char_path bg_path
              in case field_file_save env w story
                        (ustr ''composed_'' @ story_id story @ ustr ''.png'') composed_data of
                   (Inl e, w1) \<Rightarrow> (Some e, story, w1)
                 | (Inr name, w1) \<Rightarrow> (None, story\<lparr>composed_image := Some name\<rparr>, w1))
         | _ \<Rightarrow> (None, story, w))
      else (None, story, w))"

definition generate_images ::
  "site \<Rightarrow> world \<Rightarrow> StoryGeneration \<Rightarrow> ustring \<Rightarrow> exn option \<times> StoryGeneration \<times> world" where
  "generate_images env w story image_style =
     (let image_generator = GPUImageGenerator_init (imaging env);
          (char_image_data, image_generator1) =
             generate_character_image (imaging env) image_generator
               (character_description story) image_style
      in case field_file_save env w story
                (ustr ''character_'' @ story_id story @ ustr ''.png'') char_image_data of
           (Inl e, w1) \<Rightarrow> (Some e, story, w1)
         | (Inr char_name, w1) \<Rightarrow>
             (let story1 = story\<lparr>character_image := Some char_name\<rparr>;
                  (bg_image_data, image_generator2) =
                     generate_background_image (imaging env) image_generator1
                       (background_description story1) image_style
              in case field_file_save env w1 story1
                        (ustr ''background_'' @ story_id story1 @ ustr ''.png'') bg_image_data of
                   (Inl e, w2) \<Rightarrow> (Some e, story1, w2)
                 | (Inr bg_name, w2) \<Rightarrow>
                     compose_scene env w2 (story1\<lparr>background_image := Some bg_name\<rparr>)))"

definition try_generate ::
  "site \<Rightarrow> world \<Rightarrow> StoryGeneration \<Rightarrow> ustring \<Rightarrow> ustring
     \<Rightarrow> exn option \<times> StoryGeneration \<times> world" where
  "try_generate env w story length_arg image_style =
     (case import_fault env of
        Some e \<Rightarrow> (Some e, story, w)
      | None \<Rightarrow>
          (let input_text = get_input_text story in
           if input_text = [] then
             (Some (Exception (ustr ''No input text available'')), story, w)
           else
             (let (story1, w1) = generate_texts env w story input_text length_arg
              in case generate_images env w1 story1 image_style of
                   (Some e, story2, w2) \<Rightarrow> (Some e, story2, w2)
                 | (None, story2, w2) \<Rightarrow>
                     (let story3 = story2\<lparr>image_model_used :=
                                             ustr ''Stable Diffusion ('' @ image_style @ ustr '')''\<rparr>;
                          story4 = story3\<lparr>status := Completed,
                                           generation_time := Some (clock env 1 - clock env 0)\<rparr>;
                          (story5, w5) = story_save w2 story4
                      in (None, story5, w5)))))"

text \<open>
  \<open>_generate_enhanced_story_content\<close>: the \<open>try\<close> body, and the handler when it
  raised. The story is changed in place; the result is the story after the call.
\<close>

definition generate_enhanced_story_content ::
  "site \<Rightarrow> world \<Rightarrow> StoryGeneration \<Rightarrow> ustring \<Rightarrow> ustring \<Rightarrow> StoryGeneration \<times> world" where
  "generate_enhanced_story_content env w story length_arg image_style =
     (case try_generate env w story length_arg image_style of
        (None, story', w') \<Rightarrow> (story', w')
      | (Some e, story', w') \<Rightarrow>
          story_save w' (story'\<lparr>status := Error, error_message := exn_text e\<rparr>))"

text \<open>\<open>StoryGeneration.objects.create(...)\<close> with a freshly drawn key.\<close>

definition objects_create ::
  "site \<Rightarrow> world \<Rightarrow> nat option \<Rightarrow> ustring \<Rightarrow> input_method \<Rightarrow> status \<Rightarrow> StoryGeneration \<times> world" where
  "objects_create env w usr prompt_arg method st =
     (let obj = (StoryGeneration_init (uuid4 env (uuids w)))
                  \<lparr>user := usr, prompt := prompt_arg, input_method := method, status := st\<rparr>;
          (obj', t) = save True (table w) obj
      in (obj', w\<lparr>table := t, uuids := Suc (uuids w)\<rparr>))"

definition option_default :: "'a \<Rightarrow> 'a option \<Rightarrow> 'a" where
  "option_default d x = (case x of None \<Rightarrow> d | Some v \<Rightarrow> v)"

text \<open>
  \<open>GenerateStoryView.post\<close>. With writes to the database succeeding, nothing in the
  outer \<open>try\<close> raises (the two helpers catch their own exceptions), so its handler has
  no case here.
\<close>

definition post :: "site \<Rightarrow> world \<Rightarrow> request \<Rightarrow> response \<times> world" where
  "post env w req =
     (if \<not> table_exists env then
        (RedirectIndex,
         messages_add MsgError
           ([128680] @ ustr '' Database not ready! Please run: python manage.py migrate'') w)
      else
        (let prompt_arg = py_strip (option_default [] (POST_prompt req));
             audio = FILES_audio_file req;
             story_length = option_default (ustr ''medium'') (POST_story_length req);
             image_style = option_default (ustr ''realistic'') (POST_image_style req)
         in if prompt_arg = [] \<and> audio = None then
              (RedirectIndex,
               messages_add MsgError (ustr ''Please provide either text input or audio file.'') w)
            else
              (let (story, w1) =
                     objects_create env w (authenticated_user req) prompt_arg
                       (if prompt_arg \<noteq> [] \<and> audio = None then TextInput
                        else if audio \<noteq> None \<and> prompt_arg = [] then AudioInput
                        else BothInput)
                       Pending;
                   (success, story2, w2) =
                     (case audio of
                        None \<Rightarrow> (True, story, w1)
                      | Some a \<Rightarrow> handle_audio_input env w1 story a)
               in if \<not> success then (RedirectIndex, w2)
                  else
                    (let (story3, w3) = story_save w2 (story2\<lparr>status := Processing\<rparr>);
                         (story4, w4) =
                            generate_enhanced_story_content env w3 story3 story_length image_style
                     in if status story4 = Error then
                          (RedirectIndex,
                           messages_add MsgError
                             (ustr ''Generation error: '' @ error_message story4) w4)
                        else
                          (RedirectResult (story_id story4),
                           messages_add MsgSuccess
                             ([127881] @ ustr '' Enhanced story generated with Ollama + GPU!'')
                             w4)))))"

section \<open>The claims in the words of the specification\<close>

text \<open>
  The keyword rule the specification gives for both fallback descriptions, over an
  already lowercased text: \<open>knight\<close> or \<open>sword\<close>, then \<open>wizard\<close> or \<open>magic\<close>, then
  \<open>space\<close> or \<open>star\<close>, else the default. The four results are the parameters \<open>r1\<close> to \<open>r4\<close>.
\<close>

definition spec_keyword_rule :: "'a \<Rightarrow> 'a \<Rightarrow> 'a \<Rightarrow> 'a \<Rightarrow> ustring \<Rightarrow> 'a" where
  "spec_keyword_rule r1 r2 r3 r4 story_lower =
     (if contains (ustr ''knight'') story_lower \<or> contains (ustr ''sword'') story_lower then r1
      else if contains (ustr ''wizard'') story_lower \<or> contains (ustr ''magic'') story_lower
        then r2
      else if contains (ustr ''space'') story_lower \<or> contains (ustr ''star'') story_lower
        then r3
      else r4)"

text \<open>The rule the scene description follows in the source, in the same form.\<close>

definition scene_keyword_rule :: "'a \<Rightarrow> 'a \<Rightarrow> 'a \<Rightarrow> 'a \<Rightarrow> ustring \<Rightarrow> 'a" where
  "scene_keyword_rule r1 r2 r3 r4 story_lower =
     (if contains (ustr ''forest'') story_lower \<or> contains (ustr ''tree'') story_lower then r1
      else if contains (ustr ''castle'') story_lower \<or> contains (ustr ''tower'') story_lower
        then r2
      else if contains (ustr ''space'') story_lower \<or> contains (ustr ''star'') story_lower
        then r3
      else r4)"

text \<open>The size of the image a PNG file holds.\<close>

definition data_size :: "file_data \<Rightarrow> (nat \<times> nat) option" where
  "data_size d = (case d of PNG img \<Rightarrow> Some (size_of img) | Unreadable \<Rightarrow> None)"

text \<open>
  When \<open>compose_images\<close> gets through its \<open>try\<close> block: both files are readable
  images, the character image has a height to divide by, and the size the character
  is scaled to is accepted by \<open>resize\<close>: it is the size the character has already, or
  both sides are at least one and the runtime can build an image of that size.
\<close>

definition composable :: "image_runtime \<Rightarrow> file_system \<Rightarrow> ustring \<Rightarrow> ustring \<Rightarrow> bool" where
  "composable rt fs char_path bg_path =
     (case (image_open fs char_path, image_open fs bg_path) of
        (Inr char_img, Inr bg_img) \<Rightarrow>
          (let char_height = snd (size_of bg_img) * 4 div 5;
               char_width = scale_width (fst (size_of char_img)) char_height
                              (snd (size_of char_img))
           in snd (size_of char_img) \<noteq> 0
              \<and> (size_of char_img = (char_width, char_height)
                   \<or> (1 \<le> char_width \<and> 1 \<le> char_height
                        \<and> resize_fault rt char_width char_height = None)))
      | _ \<Rightarrow> False)"

section \<open>Concrete surroundings\<close>

text \<open>
  Surroundings on which the model is run: an Ollama server that cannot be reached, one
  that lists the model and answers every chat request with status 500, and a machine
  without GPU and without the font file, which builds images of up to \<open>2 ^ 28\<close> pixels.
\<close>

definition server_down :: ollama_server where
  "server_down =
     \<lparr>tags = TagsRaised (Exception (ustr ''Connection refused'')),
      chat = (\<lambda>n r. ChatRaised (Exception (ustr ''Connection refused'')))\<rparr>"


definition cpu_runtime :: image_runtime where
  "cpu_runtime =
     \<lparr>GPU_AVAILABLE = False,
      from_pretrained = (\<lambda>n. Some (Exception (ustr ''no pipeline''))),
      run_pipeline = (\<lambda>k d s. Inl (Exception (ustr ''no pipeline''))),
      arial = False,
      textbbox = (\<lambda>t. (0, 0, 6 * int (length t), 11)),
      resize_fault = (\<lambda>w h. if w * h \<le> 2 ^ 28 then None
                            else Some (Exception (ustr ''MemoryError'')))\<rparr>"

text \<open>
  Image files: a square character and a landscape background of the sizes the
  pipeline produces, a character one pixel wide, a larger background, and a character
  one pixel high.
\<close>

definition scene_files :: file_system where
  "scene_files =
     [(ustr ''character.png'', PNG (Raster 512 512 1)),
      (ustr ''background.png'', PNG (Raster 768 512 2)),
      (ustr ''thin.png'', PNG (Raster 1 1000 3)),
      (ustr ''large.png'', PNG (Raster 800 600 4)),
      (ustr ''wide.png'', PNG (Raster 1000000 1 5))]"

text \<open>
  A site with the stories table in place, no audio libraries, no Ollama and no GPU,
  whose storage accepts every file; and the same site before its migration.
\<close>

definition offline_site :: site where
  "offline_site =
     \<lparr>str_lower = ascii_lower,
      table_exists = True,
      check_audio_support = False,
      whisper_transcribe = (\<lambda>a. Inl (Exception (ustr ''No module named whisper''))),
      recognize_google = (\<lambda>a. Inl (Exception (ustr ''No module named speech_recognition''))),
      ollama = server_down,
      imaging = cpu_runtime,
      uuid4 = (\<lambda>n. ustr ''uuid-'' @ str_of_nat n),
      storage_fault = (\<lambda>name. None),
      import_fault = None,
      clock = (\<lambda>n. real n)\<rparr>"

definition unmigrated_site :: site where
  "unmigrated_site = offline_site\<lparr>table_exists := False\<rparr>"

definition empty_world :: world where
  "empty_world =
     \<lparr>table = [], media = [], posts = [], transcriptions = 0, uuids = 0, flashes = []\<rparr>"

definition big_audio :: uploaded_file where
  "big_audio = \<lparr>upload_name = ustr ''talk.wav'', upload_size = 10485761, upload_data = 0\<rparr>"

definition text_request :: request where
  "text_request =
     \<lparr>POST_prompt = Some (ustr '' A Knight '') , POST_story_length = None,
      POST_image_style = None, FILES_audio_file = None, authenticated_user = None\<rparr>"

text \<open>
  A story as \<open>post\<close> hands it to the generation, with a prompt and without one, in a
  world whose table holds it, and three requests: one with a prompt only, one with an
  audio file only, and one with neither.
\<close>

definition knight_story :: StoryGeneration where
  "knight_story =
     (StoryGeneration_init (ustr ''uuid-0''))\<lparr>prompt := ustr ''A Knight'', status := Processing\<rparr>"

definition blank_story :: StoryGeneration where
  "blank_story = (StoryGeneration_init (ustr ''uuid-0''))\<lparr>status := Processing\<rparr>"

definition knight_world :: world where
  "knight_world = empty_world\<lparr>table := [knight_story], uuids := 1\<rparr>"

definition audio_request :: request where
  "audio_request =
     \<lparr>POST_prompt = None, POST_story_length = None, POST_image_style = None,
      FILES_audio_file = Some big_audio, authenticated_user = None\<rparr>"

definition empty_request :: request where
  "empty_request =
     \<lparr>POST_prompt = Some (ustr ''   ''), POST_story_length = None, POST_image_style = None,
      FILES_audio_file = None, authenticated_user = None\<rparr>"

section \<open>Word counts\<close>

lemma length_split_acc: "length (split_acc w s) = wc (w \<noteq> []) s"
  by (induction s arbitrary: w) auto

lemma length_py_split: "length (py_split s) = wc False s"
  by (simp add: py_split_def length_split_acc)

lemma wc_True_pos: "1 \<le> wc True s"
  by (induction s) auto

lemma wc_mono_flag: "wc False s \<le> wc True s"
  by (cases s) auto

lemma wc_append_right: "wc b x \<le> wc b (x @ y)"
proof (induction x arbitrary: b)
  case Nil
  show ?case using wc_True_pos [of y] by (cases b) auto
next
  case (Cons c cs)
  then show ?case by (auto simp: add_le_mono)
qed

lemma wc_append_left: "wc False y \<le> wc b (x @ y)"
proof (induction x arbitrary: b)
  case Nil
  show ?case using wc_mono_flag [of y] by (cases b) auto
next
  case (Cons c cs)
  have "wc False y \<le> wc False (cs @ y)" and "wc False y \<le> wc True (cs @ y)"
    using Cons.IH by blast+
  then show ?case by auto
qed

lemma wc_split_at_space: "py_isspace c \<Longrightarrow> wc b (x @ c # y) = wc b x + wc False y"
  by (induction x arbitrary: b) auto

lemma wc_fallback_discovery: "wc False fallback_discovery = 43"
  by (simp add: fallback_discovery_def ustr_def py_isspace_def)

lemma wc_fallback_path: "wc False fallback_path = 34"
  by (simp add: fallback_path_def ustr_def py_isspace_def)

lemma wc_fallback_journey: "wc False fallback_journey = 42"
  by (simp add: fallback_journey_def ustr_def py_isspace_def)

text \<open>
  The fallback story has more than 100 words whatever the prompt is: its second, third
  and fourth paragraph, which stand between line feeds, have 119 words together.
\<close>

lemma fallback_story_words: "100 < wc False (generate_fallback_story lower p)"
proof -
  define R where "R = fallback_resolution_head @ lower p @ fallback_resolution_tail
    @ [10, 10] @ fallback_conclusion"
  define A where "A = fallback_opening_head @ lower p @ fallback_opening_tail @ [10, 10]"
  let ?M = "fallback_discovery @ 10 # (10 # fallback_path @ 10 #
              (10 # fallback_journey @ 10 # (10 # R)))"
  have sp: "py_isspace 10" by (simp add: py_isspace_def)
  have e: "generate_fallback_story lower p = A @ ?M"
    by (simp add: generate_fallback_story_def R_def A_def)
  have "wc False ?M = 43 + 34 + 42 + wc False R"
    using sp
    by (simp add: wc_split_at_space wc_fallback_discovery wc_fallback_path
          wc_fallback_journey)
  then show ?thesis
    using wc_append_left [of ?M False A] by (simp add: e)
qed

section \<open>The word count kept by save\<close>

lemma db_write_member: "self \<in> set (db_write t self)"
  by (induction t) (auto simp: db_write_def)

text \<open>
  Claim C8. After \<open>StoryGeneration.save\<close> of a story whose \<open>story_text\<close> is not empty,
  \<open>story_word_count\<close> is the number of whitespace-separated words of \<open>story_text\<close>;
  when \<open>story_text\<close> is empty the count is left as it was, so that a count that is not
  the number of words of the (empty) text can stay: there is a story for which it does.
  The text itself is not changed and the saved instance is a row of the table.
\<close>

theorem save_word_count:
  "(story_text s \<noteq> [] \<longrightarrow>
      story_word_count (fst (save fi t s)) = int (length (py_split (story_text s))))
   \<and> (story_text s = [] \<longrightarrow> story_word_count (fst (save fi t s)) = story_word_count s)
   \<and> story_text (fst (save fi t s)) = story_text s
   \<and> fst (save fi t s) \<in> set (snd (save fi t s))
   \<and> (\<exists>s'. story_text s' = [] \<and>
          story_word_count (fst (save fi t s')) \<noteq> int (length (py_split (story_text s'))))"
proof -
  let ?stale = "(StoryGeneration_init [])\<lparr>story_word_count := 7\<rparr>"
  have "story_text ?stale = [] \<and>
        story_word_count (fst (save fi t ?stale)) \<noteq> int (length (py_split (story_text ?stale)))"
    by (simp add: save_def Let_def StoryGeneration_init_def py_split_def)
  then have ex: "\<exists>s'. story_text s' = [] \<and>
          story_word_count (fst (save fi t s')) \<noteq> int (length (py_split (story_text s')))"
    by blast
  have mem: "fst (save fi t s) \<in> set (snd (save fi t s))"
    by (simp add: save_def Let_def db_write_member)
  show ?thesis using ex mem by (simp add: save_def Let_def)
qed

theorem save_word_count_witness:
  "story_word_count (fst (save False []
      ((StoryGeneration_init (ustr ''k''))\<lparr>story_text := ustr ''one two''\<rparr>))) = 2
   \<and> story_word_count (fst (save False []
      ((StoryGeneration_init (ustr ''k''))\<lparr>story_word_count := 7\<rparr>))) = 7"
proof -
  let ?a = "(StoryGeneration_init (ustr ''k''))\<lparr>story_text := ustr ''one two''\<rparr>"
  let ?b = "(StoryGeneration_init (ustr ''k''))\<lparr>story_word_count := 7\<rparr>"
  have a: "story_text ?a \<noteq> []" by (simp add: ustr_def)
  have b: "story_text ?b = []" by (simp add: StoryGeneration_init_def)
  have w: "int (length (py_split (story_text ?a))) = 2"
    by (simp add: py_split_def ustr_def py_isspace_def)
  from save_word_count [of ?a False "[]"] a w
  have 1: "story_word_count (fst (save False [] ?a)) = 2" by simp
  from save_word_count [of ?b False "[]"] b
  have 2: "story_word_count (fst (save False [] ?b)) = 7" by simp
  show ?thesis using 1 2 by simp
qed

section \<open>The length of a generated story\<close>

text \<open>
  Claim C9. For every prompt and every length argument, whatever the server answers
  and whether or not the generator is available, \<open>generate_story\<close> returns a string of
  more than 100 whitespace-separated words: an answer of Ollama is returned only when
  it has more than 100 words, and the fallback story returned otherwise has more than
  100 words for every prompt.
\<close>

theorem generate_story_more_than_100_words:
  "100 < length (py_split (fst (generate_story lower srv gen ps user_prompt length_arg)))
   \<and> 100 < length (py_split (generate_fallback_story lower user_prompt))"
  using fallback_story_words [of lower user_prompt]
  by (simp add: generate_story_def length_py_split split: prod.splits)

section \<open>Fallbacks when a service is unavailable\<close>

lemma size_of_draw_fold:
  "size_of (foldl (\<lambda>im y. Draw im (f y) (g y)) img ys) = size_of img"
  by (induction ys arbitrary: img) auto

lemma size_of_character_gradient [simp]: "size_of (character_gradient img) = size_of img"
  unfolding character_gradient_def by (rule size_of_draw_fold)

lemma size_of_sky_gradient [simp]: "size_of (sky_gradient img) = size_of img"
  unfolding sky_gradient_def by (rule size_of_draw_fold)

lemma size_of_ground_gradient [simp]: "size_of (ground_gradient img) = size_of img"
  unfolding ground_gradient_def by (rule size_of_draw_fold)

lemma data_size_character_placeholder:
  "data_size (create_artistic_character_placeholder rt d) = Some (512, 512)"
  by (simp add: create_artistic_character_placeholder_def data_size_def Let_def)

lemma data_size_background_placeholder:
  "data_size (create_artistic_background_placeholder rt d) = Some (768, 512)"
  by (simp add: create_artistic_background_placeholder_def data_size_def Let_def)

lemma data_size_placeholder:
  "data_size (create_placeholder rt txt w h) = Some (w, h)"
  by (simp add: create_placeholder_def data_size_def Let_def split: prod.splits)



lemma server_down_unavailable: "\<not> available (OllamaStoryGenerator_init server_down)"
  by (simp add: OllamaStoryGenerator_init_def check_ollama_availability_def server_down_def)


lemma cpu_runtime_unavailable: "\<not> gpu_available (GPUImageGenerator_init cpu_runtime)"
  by (simp add: GPUImageGenerator_init_def cpu_runtime_def)



section \<open>One request per operation\<close>




section \<open>Descriptions are derived from the story text\<close>

text \<open>
  Claim C5, as amended. The descriptions are derived from the generated story text:
  in \<open>generate_texts\<close>, the part of \<open>_generate_enhanced_story_content\<close> that produces the
  texts, the character and the background description are the results of
  \<open>generate_character_description\<close> and \<open>generate_scene_description\<close> on the story text
  of the record. In fallback mode the character description is chosen by the first
  matching rule among \<open>knight\<close>/\<open>sword\<close>, \<open>wizard\<close>/\<open>magic\<close>, \<open>space\<close>/\<open>star\<close>, else the
  adventurer; the scene description is chosen by the first matching rule among
  \<open>forest\<close>/\<open>tree\<close>, \<open>castle\<close>/\<open>tower\<close>, \<open>space\<close>/\<open>star\<close>, else the landscape, all over
  the lowercased story text.
\<close>

theorem descriptions_from_story_text:
  "(\<exists>p1 p2.
      character_description (fst (generate_texts env w story input_text length_arg))
        = fst (generate_character_description (str_lower env) (ollama env)
                 (OllamaStoryGenerator_init (ollama env)) p1
                 (story_text (fst (generate_texts env w story input_text length_arg))))
      \<and> background_description (fst (generate_texts env w story input_text length_arg))
        = fst (generate_scene_description (str_lower env) (ollama env)
                 (OllamaStoryGenerator_init (ollama env)) p2
                 (story_text (fst (generate_texts env w story input_text length_arg)))))
   \<and> (\<not> available gen \<longrightarrow>
        fst (generate_character_description lower srv gen ps txt)
          = spec_keyword_rule knight_description wizard_description explorer_description
              adventurer_description (lower txt)
        \<and> fst (generate_scene_description lower srv gen ps txt)
          = scene_keyword_rule forest_description castle_description space_description
              landscape_description (lower txt))"
proof -
  let ?G = "OllamaStoryGenerator_init (ollama env)"
  let ?r1 = "generate_story (str_lower env) (ollama env) ?G (posts w) input_text length_arg"
  let ?r2 = "generate_character_description (str_lower env) (ollama env) ?G (snd ?r1) (fst ?r1)"
  let ?r3 = "generate_scene_description (str_lower env) (ollama env) ?G (snd ?r2) (fst ?r1)"
  let ?s = "fst (generate_texts env w story input_text length_arg)"
  have st: "story_text ?s = fst ?r1"
    by (simp add: generate_texts_def Let_def case_prod_beta)
  have cd: "character_description ?s = fst ?r2"
    by (simp add: generate_texts_def Let_def case_prod_beta)
  have bd: "background_description ?s = fst ?r3"
    by (simp add: generate_texts_def Let_def case_prod_beta)
  have a: "\<exists>p1 p2.
      character_description ?s
        = fst (generate_character_description (str_lower env) (ollama env) ?G p1 (story_text ?s))
      \<and> background_description ?s
        = fst (generate_scene_description (str_lower env) (ollama env) ?G p2 (story_text ?s))"
    using st cd bd by metis
  have b: "\<not> available gen \<longrightarrow>
        fst (generate_character_description lower srv gen ps txt)
          = spec_keyword_rule knight_description wizard_description explorer_description
              adventurer_description (lower txt)
        \<and> fst (generate_scene_description lower srv gen ps txt)
          = scene_keyword_rule forest_description castle_description space_description
              landscape_description (lower txt)"
    by (simp add: generate_character_description_def generate_scene_description_def
          fallback_character_description_def fallback_scene_description_def
          spec_keyword_rule_def scene_keyword_rule_def Let_def)
  from a b show ?thesis by blast
qed

lemma lower_knight: "ascii_lower (ustr ''A Knight rode'') = ustr ''a knight rode''"
  by (simp add: ascii_lower_def ustr_def)

lemma lower_forest: "ascii_lower (ustr ''Deep in the Forest'') = ustr ''deep in the forest''"
  by (simp add: ascii_lower_def ustr_def)

lemma spec_rule_on_forest:
  "spec_keyword_rule r1 r2 r3 r4 (ustr ''deep in the forest'') = r4"
  by (simp add: spec_keyword_rule_def ustr_def)

lemma scene_rule_on_forest:
  "scene_keyword_rule r1 r2 r3 r4 (ustr ''deep in the forest'') = r1"
  by (simp add: scene_keyword_rule_def ustr_def)

lemma spec_rule_on_knight:
  "spec_keyword_rule r1 r2 r3 r4 (ustr ''a knight rode'') = r1"
  by (simp add: spec_keyword_rule_def ustr_def)

lemma forest_not_landscape: "forest_description \<noteq> landscape_description"
  by (simp add: forest_description_def landscape_description_def ustr_def)

theorem descriptions_from_story_text_witness:
  "fst (generate_character_description ascii_lower server_down
          (OllamaStoryGenerator_init server_down) [] (ustr ''A Knight rode''))
     = knight_description
   \<and> fst (generate_scene_description ascii_lower server_down
          (OllamaStoryGenerator_init server_down) [] (ustr ''Deep in the Forest''))
     = forest_description"
  using descriptions_from_story_text [of _ _ _ _ _ "OllamaStoryGenerator_init server_down"
      ascii_lower server_down "[]" "ustr ''A Knight rode''"]
    descriptions_from_story_text [of _ _ _ _ _ "OllamaStoryGenerator_init server_down"
      ascii_lower server_down "[]" "ustr ''Deep in the Forest''"]
    server_down_unavailable
  by (simp add: lower_knight lower_forest spec_rule_on_knight scene_rule_on_forest)

text \<open>
  The claim as stated gives the scene description the keywords of the character
  description. On the story \<open>Deep in the Forest\<close> none of those keywords occurs, so the
  stated rule selects the default landscape, while the source returns the forest.
\<close>

theorem scene_rule_counterexample:
  "fst (generate_scene_description ascii_lower server_down
          (OllamaStoryGenerator_init server_down) [] (ustr ''Deep in the Forest''))
     \<noteq> spec_keyword_rule forest_description castle_description space_description
           landscape_description (ascii_lower (ustr ''Deep in the Forest''))"
  using server_down_unavailable forest_not_landscape
  by (simp add: generate_scene_description_def fallback_scene_description_def Let_def
        lower_forest spec_rule_on_forest
        scene_rule_on_forest [unfolded scene_keyword_rule_def])

section \<open>Composing the scene\<close>

subsection \<open>The width of the scaled character\<close>

lemma bitlen_0: "bitlen 0 = 0"
  by (simp add: bitlen.simps [of 0])

lemma bitlen_pos: "0 < n \<Longrightarrow> bitlen n = Suc (bitlen (n div 2))"
  by (subst bitlen.simps) simp

lemma bitlen_numeral: "bitlen (numeral k) = Suc (bitlen (numeral k div 2))"
  by (subst bitlen.simps) simp

lemma bitlen_Suc_0: "bitlen (Suc 0) = Suc 0"
  by (simp add: bitlen.simps [of "Suc 0"] bitlen_0)

lemma bitlen_bounds: "0 < n \<Longrightarrow> 2 ^ (bitlen n - 1) \<le> n \<and> n < 2 ^ bitlen n"
proof (induction n rule: bitlen.induct)
  case (1 n)
  have b: "bitlen n = Suc (bitlen (n div 2))" using "1.prems" by (rule bitlen_pos)
  show ?case
  proof (cases "n div 2 = 0")
    case True
    then have z: "bitlen (n div 2) = 0" by (simp add: bitlen_0)
    from True "1.prems" have n: "n = 1" by auto
    have "bitlen n = 1" by (simp add: b z)
    then show ?thesis by (simp add: n)
  next
    case False
    then have pos: "0 < n div 2" by simp
    from "1.IH" "1.prems" pos
    have ih: "2 ^ (bitlen (n div 2) - 1) \<le> n div 2" "n div 2 < 2 ^ bitlen (n div 2)"
      by auto
    have bp: "0 < bitlen (n div 2)" using bitlen_pos [OF pos] by simp
    then have e: "bitlen n - 1 = Suc (bitlen (n div 2) - 1)" using b by simp
    have "(2::nat) ^ (bitlen n - 1) = 2 * 2 ^ (bitlen (n div 2) - 1)" using e by simp
    also have "\<dots> \<le> 2 * (n div 2)" using ih(1) by simp
    also have "\<dots> \<le> n" by simp
    finally have lo: "2 ^ (bitlen n - 1) \<le> n" .
    have "n < 2 * (n div 2) + 2" by presburger
    also have "\<dots> \<le> 2 * 2 ^ bitlen (n div 2)" using ih(2) by simp
    finally have "n < 2 ^ bitlen n" by (simp add: b)
    with lo show ?thesis by simp
  qed
qed

text \<open>Rounding to the nearest integer moves a quotient by at most one half.\<close>

lemma rne_div_bounds:
  assumes "0 < d"
  shows "2 * d * rne_div p d \<le> 2 * p + d" and "2 * p \<le> 2 * d * rne_div p d + d"
proof -
  define q where "q = p div d"
  define r where "r = p mod d"
  have e: "p = d * q + r" by (simp add: q_def r_def)
  have r: "r < d" using assms by (simp add: r_def)
  have R: "rne_div p d =
      (if 2 * r < d then q else if d < 2 * r then q + 1 else if even q then q else q + 1)"
    by (simp add: rne_div_def Let_def q_def r_def)
  have "2 * d * rne_div p d \<le> 2 * (d * q + r) + d"
    unfolding R using r by (auto simp: algebra_simps)
  then show "2 * d * rne_div p d \<le> 2 * p + d" using e by simp
  have "2 * (d * q + r) \<le> 2 * d * rne_div p d + d"
    unfolding R using r by (auto simp: algebra_simps)
  then show "2 * p \<le> 2 * d * rne_div p d + d" using e by simp
qed

lemma rne_div_one: "rne_div p 1 = p"
  by (simp add: rne_div_def)

text \<open>
  The quotient \<open>a / b\<close> as a double \<open>(m, s)\<close>: the exact quotient scaled by \<open>2 ^ s\<close> lies
  between \<open>2 ^ 52\<close> and \<open>2 ^ 53\<close>, and \<open>m\<close> is that number rounded.
\<close>

lemma float_div_scale:
  assumes "0 < a" and "0 < b" and "bitlen a \<le> 52 + bitlen b"
  shows "2 ^ 52 * b \<le> a * 2 ^ snd (float_div a b)"
    and "a * 2 ^ snd (float_div a b) < 2 ^ 53 * b"
proof -
  define s1 where "s1 = 52 + bitlen b - bitlen a"
  define la where "la = bitlen a - 1"
  define lb where "lb = bitlen b - 1"
  note ba = bitlen_bounds [OF assms(1)]
  note bb = bitlen_bounds [OF assms(2)]
  have la: "bitlen a = Suc la" using bitlen_pos [OF assms(1)] by (simp add: la_def)
  have lb: "bitlen b = Suc lb" using bitlen_pos [OF assms(2)] by (simp add: lb_def)
  have a1: "2 ^ la \<le> a" "a < 2 * 2 ^ la" using ba by (simp_all add: la)
  have b1: "2 ^ lb \<le> b" "b < 2 * 2 ^ lb" using bb by (simp_all add: lb)
  have s: "la + s1 = 52 + lb" using assms(3) by (simp add: s1_def la lb)
  have P: "(2::nat) ^ la * 2 ^ s1 = 2 ^ 52 * 2 ^ lb"
    using s by (metis power_add)
  have up1: "a * 2 ^ s1 < 2 ^ 53 * b"
  proof -
    have "a * 2 ^ s1 < (2 * 2 ^ la) * 2 ^ s1" using a1(2) by simp
    also have "\<dots> = 2 * (2 ^ la * 2 ^ s1)" by simp
    also have "\<dots> = 2 * (2 ^ 52 * 2 ^ lb)" by (simp only: P)
    also have "\<dots> = 2 ^ 53 * 2 ^ lb" by simp
    also have "\<dots> \<le> 2 ^ 53 * b" using b1(1) by simp
    finally show ?thesis .
  qed
  have lo2: "2 ^ 52 * b \<le> a * 2 ^ Suc s1"
  proof -
    have "2 ^ 52 * b \<le> 2 ^ 52 * (2 * 2 ^ lb)" using b1(2) by simp
    also have "\<dots> = 2 * (2 ^ 52 * 2 ^ lb)" by simp
    also have "\<dots> = 2 * (2 ^ la * 2 ^ s1)" by (simp only: P)
    also have "\<dots> = 2 ^ la * 2 ^ Suc s1" by simp
    also have "\<dots> \<le> a * 2 ^ Suc s1" using a1(1) by (rule mult_right_mono) simp
    finally show ?thesis .
  qed
  have sd: "snd (float_div a b) = (if 2 ^ 52 * b \<le> a * 2 ^ s1 then s1 else Suc s1)"
    by (simp add: float_div_def Let_def s1_def)
  show "2 ^ 52 * b \<le> a * 2 ^ snd (float_div a b)"
    unfolding sd using lo2 by (cases "2 ^ 52 * b \<le> a * 2 ^ s1") simp_all
  show "a * 2 ^ snd (float_div a b) < 2 ^ 53 * b"
  proof (cases "2 ^ 52 * b \<le> a * 2 ^ s1")
    case True
    then show ?thesis unfolding sd using up1 by simp
  next
    case False
    then have "a * 2 ^ s1 < 2 ^ 52 * b" by simp
    then have "2 * (a * 2 ^ s1) < 2 * (2 ^ 52 * b)" by simp
    then have "a * 2 ^ Suc s1 < 2 ^ 53 * b" by simp
    with False show ?thesis unfolding sd by simp
  qed
qed

lemma float_div_round:
  assumes "0 < b"
  shows "2 * b * fst (float_div a b) \<le> 2 * (a * 2 ^ snd (float_div a b)) + b"
    and "2 * (a * 2 ^ snd (float_div a b)) \<le> 2 * b * fst (float_div a b) + b"
proof -
  have f: "fst (float_div a b) = rne_div (a * 2 ^ snd (float_div a b)) b"
    by (simp add: float_div_def Let_def)
  show "2 * b * fst (float_div a b) \<le> 2 * (a * 2 ^ snd (float_div a b)) + b"
    unfolding f [symmetric]
    using rne_div_bounds(1) [OF assms, of "a * 2 ^ snd (float_div a b)"] f by simp
  show "2 * (a * 2 ^ snd (float_div a b)) \<le> 2 * b * fst (float_div a b) + b"
    using rne_div_bounds(2) [OF assms, of "a * 2 ^ snd (float_div a b)"] f by simp
qed

text \<open>
  The two roundings together move \<open>w * ch / h\<close> by less than one: the width computed
  in floating point is the exact quotient rounded down, or one less than it when the
  quotient is a whole number.
\<close>

lemma scale_width_pos_bounds:
  assumes ch: "0 < ch" and h: "0 < h" and small: "w * ch < 2 ^ 51"
  shows "scale_width w ch h * h \<le> w * ch \<and> w * ch \<le> (scale_width w ch h + 1) * h"
proof -
  define m where "m = fst (float_div ch h)"
  define s where "s = snd (float_div ch h)"
  define D :: nat where "D = 2 ^ s"
  define p where "p = w * m"
  define t where "t = bitlen p - 53"
  define T :: nat where "T = 2 ^ t"
  define M where "M = rne_div p T"
  define Y where "Y = M * T"
  define R where "R = Y div D"
  have Dpos: "0 < D" by (simp add: D_def)
  have Tpos: "0 < T" by (simp add: T_def)
  have sw: "scale_width w ch h = R"
    using ch
    by (simp add: scale_width_def mul_trunc_def case_prod_beta Let_def R_def Y_def M_def
          T_def t_def p_def m_def s_def D_def)
  have goal: "R * h \<le> w * ch \<and> w * ch \<le> (R + 1) * h"
  proof (cases "w = 0")
    case True
    then have "p = 0" by (simp add: p_def)
    then have "t = 0" by (simp add: t_def bitlen_0)
    with \<open>p = 0\<close> have "M = 0" by (simp add: M_def T_def rne_div_def)
    then have "R = 0" by (simp add: R_def Y_def)
    with True show ?thesis by simp
  next
    case False
    then have wpos: "0 < w" by simp
    have chs: "ch < 2 ^ 51"
    proof -
      have "ch \<le> w * ch" using wpos by simp
      then show ?thesis using small by (rule le_less_trans)
    qed
    have bl: "bitlen ch \<le> 52 + bitlen h"
    proof (rule ccontr)
      assume "\<not> bitlen ch \<le> 52 + bitlen h"
      then have "52 \<le> bitlen ch - 1" by simp
      then have "(2::nat) ^ 52 \<le> 2 ^ (bitlen ch - 1)" by (rule power_increasing) simp
      also have "\<dots> \<le> ch" using bitlen_bounds [OF ch] by simp
      finally show False using chs by simp
    qed
    have sc1: "2 ^ 52 * h \<le> ch * D" and sc2: "ch * D < 2 ^ 53 * h"
      using float_div_scale [OF ch h bl] by (simp_all add: D_def s_def)
    have f1: "2 * h * m \<le> 2 * (ch * D) + h" and f2: "2 * (ch * D) \<le> 2 * h * m + h"
      using float_div_round [OF h, of ch] by (simp_all add: D_def s_def m_def)
    have r1: "2 * T * M \<le> 2 * p + T" and r2: "2 * p \<le> 2 * T * M + T"
      using rne_div_bounds [OF Tpos, of p] by (simp_all add: M_def)
    have mb: "m \<le> 2 ^ 53"
    proof (rule ccontr)
      assume "\<not> m \<le> 2 ^ 53"
      then have "2 ^ 53 + 1 \<le> m" by simp
      then have "2 * h * (2 ^ 53 + 1) \<le> 2 * h * m" by (rule mult_left_mono) simp
      also have "\<dots> \<le> 2 * (ch * D) + h" by (rule f1)
      also have "\<dots> < 2 * (2 ^ 53 * h) + h" using sc2 by (simp add: mult.commute)
      finally show False using h by simp
    qed
    have tb: "T \<le> 2 * w"
    proof (cases "t = 0")
      case True
      then show ?thesis using wpos by (simp add: T_def)
    next
      case False
      then have bp: "bitlen p = 53 + t" by (simp add: t_def)
      then have "0 < p" by (cases "p = 0") (simp_all add: bitlen_0)
      from bitlen_bounds [OF this] have "2 ^ (52 + t) \<le> p" by (simp add: bp)
      then have "2 ^ 52 * T \<le> w * m" by (simp add: T_def p_def power_add)
      also have "\<dots> \<le> w * 2 ^ 53" using mb by (rule mult_left_mono) simp
      finally have "2 ^ 52 * T \<le> 2 ^ 52 * (2 * w)" by simp
      then show ?thesis by simp
    qed
    have K: "h * w + h * T < 2 * D"
    proof -
      have "ch * (w + T) \<le> ch * (3 * w)" using tb by (intro mult_left_mono) simp_all
      also have "\<dots> = 3 * (w * ch)" by simp
      also have "\<dots> < 3 * 2 ^ 51" using small by (simp add: mult.commute)
      also have "\<dots> < (2::nat) ^ 53" by simp
      finally have "ch * (w + T) < 2 ^ 53" .
      then have "h * (ch * (w + T)) < h * 2 ^ 53" using h by simp
      also have "\<dots> = 2 * (2 ^ 52 * h)" by simp
      also have "\<dots> \<le> 2 * (ch * D)" using sc1 by (simp add: mult.commute)
      finally have "ch * (h * (w + T)) < ch * (2 * D)" by (simp add: algebra_simps)
      then have "h * (w + T) < 2 * D" using ch by simp
      then show ?thesis by (simp add: algebra_simps)
    qed
    define X where "X = w * ch * D"
    define hp where "hp = h * p"
    define hY where "hY = h * Y"
    define wh where "wh = h * w"
    define hT where "hT = h * T"
    define RhD where "RhD = R * h * D"
    have a1: "2 * hp \<le> 2 * X + wh"
    proof -
      from f1 have "w * (2 * h * m) \<le> w * (2 * (ch * D) + h)" by (rule mult_left_mono) simp
      then show ?thesis by (simp add: hp_def X_def wh_def p_def algebra_simps)
    qed
    have a2: "2 * X \<le> 2 * hp + wh"
    proof -
      from f2 have "w * (2 * (ch * D)) \<le> w * (2 * h * m + h)" by (rule mult_left_mono) simp
      then show ?thesis by (simp add: hp_def X_def wh_def p_def algebra_simps)
    qed
    have a3: "2 * hY \<le> 2 * hp + hT"
    proof -
      from r1 have "h * (2 * T * M) \<le> h * (2 * p + T)" by (rule mult_left_mono) simp
      then show ?thesis by (simp add: hp_def hY_def hT_def Y_def algebra_simps)
    qed
    have a4: "2 * hp \<le> 2 * hY + hT"
    proof -
      from r2 have "h * (2 * p) \<le> h * (2 * T * M + T)" by (rule mult_left_mono) simp
      then show ?thesis by (simp add: hp_def hY_def hT_def Y_def algebra_simps)
    qed
    have a5: "wh + hT < 2 * D" using K by (simp add: wh_def hT_def)
    have d1: "RhD \<le> hY"
    proof -
      have "R * D \<le> Y" by (simp add: R_def)
      then have "h * (R * D) \<le> h * Y" by (rule mult_left_mono) simp
      then show ?thesis by (simp add: RhD_def hY_def algebra_simps)
    qed
    have d2: "hY < RhD + h * D"
    proof -
      have "Y < R * D + D" using Dpos
        by (simp add: R_def) (metis Suc_eq_plus1 dividend_less_div_times mult.commute
            add.commute mult_Suc)
      then have "h * Y < h * (R * D + D)" using h by simp
      then show ?thesis by (simp add: RhD_def hY_def algebra_simps)
    qed
    have A: "R * h \<le> w * ch"
    proof (rule ccontr)
      assume "\<not> R * h \<le> w * ch"
      then have "w * ch + 1 \<le> R * h" by simp
      then have "(w * ch + 1) * D \<le> (R * h) * D" by (rule mult_right_mono) simp
      then have "X + D \<le> RhD" by (simp add: X_def RhD_def algebra_simps)
      with a1 a3 a5 d1 show False by linarith
    qed
    have B: "w * ch \<le> (R + 1) * h"
    proof (rule ccontr)
      assume "\<not> w * ch \<le> (R + 1) * h"
      then have "(R + 1) * h + 1 \<le> w * ch" by simp
      then have "((R + 1) * h + 1) * D \<le> (w * ch) * D" by (rule mult_right_mono) simp
      then have "RhD + h * D + D \<le> X" by (simp add: X_def RhD_def algebra_simps)
      with a2 a4 a5 d2 show False by linarith
    qed
    from A B show ?thesis by simp
  qed
  then show ?thesis by (simp add: sw)
qed

lemma scale_width_bounds:
  assumes "0 < h" and "w * ch < 2 ^ 51"
  shows "scale_width w ch h * h \<le> w * ch" and "w * ch \<le> (scale_width w ch h + 1) * h"
proof -
  have "scale_width w ch h * h \<le> w * ch \<and> w * ch \<le> (scale_width w ch h + 1) * h"
  proof (cases "ch = 0")
    case True
    then show ?thesis by (simp add: scale_width_def)
  next
    case False
    then have "0 < ch" by simp
    then show ?thesis using assms by (rule scale_width_pos_bounds)
  qed
  then show "scale_width w ch h * h \<le> w * ch"
    and "w * ch \<le> (scale_width w ch h + 1) * h" by simp_all
qed

lemma scale_width_square: "scale_width 512 409 512 = 409"
  by (simp add: scale_width_def float_div_def mul_trunc_def rne_div_def Let_def
        bitlen_numeral bitlen_0 bitlen_Suc_0)

lemma scale_width_thin: "scale_width (Suc 0) 480 1000 = 0"
  by (simp add: scale_width_def float_div_def mul_trunc_def rne_div_def Let_def
        bitlen_numeral bitlen_0 bitlen_Suc_0)

lemma scale_width_wide: "scale_width 1000000 409 (Suc 0) = 409000000"
  by (simp add: scale_width_def float_div_def mul_trunc_def rne_div_def Let_def
        bitlen_numeral bitlen_0 bitlen_Suc_0)

subsection \<open>The composed scene\<close>

lemma compose_images_composable:
  assumes oc: "image_open fs char_path = Inr char_img"
    and ob: "image_open fs bg_path = Inr bg_img"
    and c: "composable rt fs char_path bg_path"
  shows "compose_images rt fs char_path bg_path
     = PNG (Convert (Paste bg_img
         (if size_of char_img
               = (scale_width (fst (size_of char_img)) (snd (size_of bg_img) * 4 div 5)
                    (snd (size_of char_img)),
                  snd (size_of bg_img) * 4 div 5)
          then char_img
          else Resize char_img
                 (scale_width (fst (size_of char_img)) (snd (size_of bg_img) * 4 div 5)
                    (snd (size_of char_img)))
                 (snd (size_of bg_img) * 4 div 5))
         (int (fst (size_of bg_img) div 4))
         (int (snd (size_of bg_img)) - int (snd (size_of bg_img) * 4 div 5))) RGB)"
  using c
  by (auto simp: composable_def compose_images_def resize_def Let_def oc ob case_prod_beta)

lemma compose_images_not_composable:
  "\<not> composable rt fs char_path bg_path \<Longrightarrow>
     compose_images rt fs char_path bg_path
       = create_placeholder rt (ustr ''COMPOSED SCENE'') 768 512"
  by (auto simp: composable_def compose_images_def resize_def Let_def
        split: sum.splits prod.splits if_splits option.splits)

lemma compose_images_png: "compose_images rt fs char_path bg_path \<noteq> Unreadable"
  by (auto simp: compose_images_def resize_def create_placeholder_def Let_def
        split: sum.splits prod.splits if_splits option.splits)

text \<open>
  Claim C6, as amended. When both files are readable images and the size the
  character is scaled to is accepted by the imaging library (\<open>composable\<close>: the
  character has a height, and the scaled size is the character's own or has sides of
  at least one pixel and is not too large for the library to build),
  \<open>compose_images\<close> returns a scene with the pixel dimensions of the background, in
  which the character, scaled to the height \<open>bg_height * 4 div 5\<close> (80 percent, rounded
  down) and to the width \<open>int(w * (char_height / h))\<close>, is pasted at
  \<open>x = bg_width div 4\<close> with its bottom on the bottom edge. That width keeps the aspect
  ratio up to truncation: with \<open>(w, h)\<close> the size of the character and \<open>(w', h')\<close> the
  size it is scaled to, \<open>w' \<le> w * h' / h \<le> w' + 1\<close> whenever \<open>w * h' < 2 ^ 51\<close>. In
  every other case (an unreadable file, a character of height zero, a scaled width or
  height of zero, a size the library cannot build) it returns the 768 by 512
  placeholder; it never raises.
\<close>

theorem compose_images_scene:
  "(composable rt fs char_path bg_path \<longrightarrow>
      (\<exists>char_img bg_img char_img'.
          image_open fs char_path = Inr char_img
        \<and> image_open fs bg_path = Inr bg_img
        \<and> compose_images rt fs char_path bg_path
            = PNG (Convert (Paste bg_img char_img'
                     (int (fst (size_of bg_img) div 4))
                     (int (snd (size_of bg_img)) - int (snd (size_of bg_img) * 4 div 5))) RGB)
        \<and> (char_img' = char_img \<or> char_img' = Resize char_img (fst (size_of char_img'))
              (snd (size_of char_img')))
        \<and> size_of char_img' =
            (scale_width (fst (size_of char_img)) (snd (size_of bg_img) * 4 div 5)
               (snd (size_of char_img)),
             snd (size_of bg_img) * 4 div 5)
        \<and> (fst (size_of char_img) * snd (size_of char_img') < 2 ^ 51 \<longrightarrow>
              fst (size_of char_img') * snd (size_of char_img)
                \<le> fst (size_of char_img) * snd (size_of char_img')
            \<and> fst (size_of char_img) * snd (size_of char_img')
                \<le> (fst (size_of char_img') + 1) * snd (size_of char_img))
        \<and> data_size (compose_images rt fs char_path bg_path) = Some (size_of bg_img)))
   \<and> (\<not> composable rt fs char_path bg_path \<longrightarrow>
        compose_images rt fs char_path bg_path
          = create_placeholder rt (ustr ''COMPOSED SCENE'') 768 512)
   \<and> data_size (create_placeholder rt (ustr ''COMPOSED SCENE'') 768 512) = Some (768, 512)"
proof -
  have a: "composable rt fs char_path bg_path \<longrightarrow>
      (\<exists>char_img bg_img char_img'.
          image_open fs char_path = Inr char_img
        \<and> image_open fs bg_path = Inr bg_img
        \<and> compose_images rt fs char_path bg_path
            = PNG (Convert (Paste bg_img char_img'
                     (int (fst (size_of bg_img) div 4))
                     (int (snd (size_of bg_img)) - int (snd (size_of bg_img) * 4 div 5))) RGB)
        \<and> (char_img' = char_img \<or> char_img' = Resize char_img (fst (size_of char_img'))
              (snd (size_of char_img')))
        \<and> size_of char_img' =
            (scale_width (fst (size_of char_img)) (snd (size_of bg_img) * 4 div 5)
               (snd (size_of char_img)),
             snd (size_of bg_img) * 4 div 5)
        \<and> (fst (size_of char_img) * snd (size_of char_img') < 2 ^ 51 \<longrightarrow>
              fst (size_of char_img') * snd (size_of char_img)
                \<le> fst (size_of char_img) * snd (size_of char_img')
            \<and> fst (size_of char_img) * snd (size_of char_img')
                \<le> (fst (size_of char_img') + 1) * snd (size_of char_img))
        \<and> data_size (compose_images rt fs char_path bg_path) = Some (size_of bg_img))"
  proof (rule impI)
    assume c: "composable rt fs char_path bg_path"
    then obtain char_img bg_img where
      oc: "image_open fs char_path = Inr char_img" and
      ob: "image_open fs bg_path = Inr bg_img"
      by (auto simp: composable_def split: sum.splits)
    define ch where "ch = snd (size_of bg_img) * 4 div 5"
    define cw where "cw = scale_width (fst (size_of char_img)) ch (snd (size_of char_img))"
    define c' where "c' = (if size_of char_img = (cw, ch) then char_img
                            else Resize char_img cw ch)"
    from c have h: "0 < snd (size_of char_img)"
      by (simp add: composable_def oc ob Let_def)
    have sz: "size_of c' = (cw, ch)" by (simp add: c'_def)
    have co: "compose_images rt fs char_path bg_path
            = PNG (Convert (Paste bg_img c'
                     (int (fst (size_of bg_img) div 4))
                     (int (snd (size_of bg_img)) - int (snd (size_of bg_img) * 4 div 5))) RGB)"
      unfolding c'_def cw_def ch_def by (rule compose_images_composable [OF oc ob c])
    have k: "c' = char_img \<or> c' = Resize char_img (fst (size_of c')) (snd (size_of c'))"
      by (simp add: c'_def)
    have ar: "fst (size_of char_img) * snd (size_of c') < 2 ^ 51 \<longrightarrow>
              fst (size_of c') * snd (size_of char_img)
                \<le> fst (size_of char_img) * snd (size_of c')
            \<and> fst (size_of char_img) * snd (size_of c')
                \<le> (fst (size_of c') + 1) * snd (size_of char_img)"
    proof (rule impI)
      assume "fst (size_of char_img) * snd (size_of c') < 2 ^ 51"
      then have s: "fst (size_of char_img) * ch < 2 ^ 51" by (simp add: sz)
      from scale_width_bounds [OF h s]
      show "fst (size_of c') * snd (size_of char_img)
                \<le> fst (size_of char_img) * snd (size_of c')
            \<and> fst (size_of char_img) * snd (size_of c')
                \<le> (fst (size_of c') + 1) * snd (size_of char_img)"
        by (simp add: sz cw_def)
    qed
    have ds: "data_size (compose_images rt fs char_path bg_path) = Some (size_of bg_img)"
      by (simp add: co data_size_def)
    have sz': "size_of c' =
            (scale_width (fst (size_of char_img)) (snd (size_of bg_img) * 4 div 5)
               (snd (size_of char_img)),
             snd (size_of bg_img) * 4 div 5)"
      by (simp add: sz cw_def ch_def)
    from oc ob co k sz' ar ds
    show "\<exists>char_img bg_img char_img'.
          image_open fs char_path = Inr char_img
        \<and> image_open fs bg_path = Inr bg_img
        \<and> compose_images rt fs char_path bg_path
            = PNG (Convert (Paste bg_img char_img'
                     (int (fst (size_of bg_img) div 4))
                     (int (snd (size_of bg_img)) - int (snd (size_of bg_img) * 4 div 5))) RGB)
        \<and> (char_img' = char_img \<or> char_img' = Resize char_img (fst (size_of char_img'))
              (snd (size_of char_img')))
        \<and> size_of char_img' =
            (scale_width (fst (size_of char_img)) (snd (size_of bg_img) * 4 div 5)
               (snd (size_of char_img)),
             snd (size_of bg_img) * 4 div 5)
        \<and> (fst (size_of char_img) * snd (size_of char_img') < 2 ^ 51 \<longrightarrow>
              fst (size_of char_img') * snd (size_of char_img)
                \<le> fst (size_of char_img) * snd (size_of char_img')
            \<and> fst (size_of char_img) * snd (size_of char_img')
                \<le> (fst (size_of char_img') + 1) * snd (size_of char_img))
        \<and> data_size (compose_images rt fs char_path bg_path) = Some (size_of bg_img)"
      by (intro exI conjI)
  qed
  have b: "\<not> composable rt fs char_path bg_path \<longrightarrow>
        compose_images rt fs char_path bg_path
          = create_placeholder rt (ustr ''COMPOSED SCENE'') 768 512"
    by (rule impI) (rule compose_images_not_composable)
  have c: "data_size (create_placeholder rt (ustr ''COMPOSED SCENE'') 768 512) = Some (768, 512)"
    by (simp add: create_placeholder_def data_size_def Let_def split: prod.splits)
  show ?thesis by (rule conjI [OF a conjI [OF b c]])
qed

lemma open_character:
  "image_open scene_files (ustr ''character.png'') = Inr (Convert (Raster 512 512 1) RGBA)"
  by (simp add: image_open_def scene_files_def ustr_def)

lemma open_background:
  "image_open scene_files (ustr ''background.png'') = Inr (Convert (Raster 768 512 2) RGBA)"
  by (simp add: image_open_def scene_files_def ustr_def)

lemma open_thin:
  "image_open scene_files (ustr ''thin.png'') = Inr (Convert (Raster 1 1000 3) RGBA)"
  by (simp add: image_open_def scene_files_def ustr_def)

lemma open_large:
  "image_open scene_files (ustr ''large.png'') = Inr (Convert (Raster 800 600 4) RGBA)"
  by (simp add: image_open_def scene_files_def ustr_def)

lemma open_wide:
  "image_open scene_files (ustr ''wide.png'') = Inr (Convert (Raster 1000000 1 5) RGBA)"
  by (simp add: image_open_def scene_files_def ustr_def)

lemma composable_square:
  "composable cpu_runtime scene_files (ustr ''character.png'') (ustr ''background.png'')"
  by (simp add: composable_def open_character open_background cpu_runtime_def
        scale_width_square)

lemma not_composable_thin:
  "\<not> composable cpu_runtime scene_files (ustr ''thin.png'') (ustr ''large.png'')"
  by (simp add: composable_def open_thin open_large cpu_runtime_def scale_width_thin Let_def)

lemma not_composable_wide:
  "\<not> composable cpu_runtime scene_files (ustr ''wide.png'') (ustr ''background.png'')"
  by (simp add: composable_def open_wide open_background cpu_runtime_def scale_width_wide
        Let_def)

theorem compose_images_scene_witness:
  "compose_images cpu_runtime scene_files (ustr ''character.png'') (ustr ''background.png'')
     = PNG (Convert (Paste (Convert (Raster 768 512 2) RGBA)
              (Resize (Convert (Raster 512 512 1) RGBA) 409 409) 192 103) RGB)
   \<and> scale_width 512 409 512 * 512 \<le> 512 * 409
   \<and> 512 * 409 \<le> (scale_width 512 409 512 + 1) * 512
   \<and> compose_images cpu_runtime scene_files (ustr ''thin.png'') (ustr ''large.png'')
     = create_placeholder cpu_runtime (ustr ''COMPOSED SCENE'') 768 512
   \<and> compose_images cpu_runtime scene_files (ustr ''wide.png'') (ustr ''background.png'')
     = create_placeholder cpu_runtime (ustr ''COMPOSED SCENE'') 768 512"
proof -
  from compose_images_scene [of cpu_runtime scene_files "ustr ''character.png''"
      "ustr ''background.png''"] composable_square
  obtain c' where
    r: "compose_images cpu_runtime scene_files (ustr ''character.png'') (ustr ''background.png'')
          = PNG (Convert (Paste (Convert (Raster 768 512 2) RGBA) c' 192 103) RGB)"
    and k: "c' = Convert (Raster 512 512 1) RGBA
            \<or> c' = Resize (Convert (Raster 512 512 1) RGBA) (fst (size_of c')) (snd (size_of c'))"
    and sz: "size_of c' = (409, 409)"
    and ar: "512 * snd (size_of c') < (2::nat) ^ 51 \<longrightarrow>
              fst (size_of c') * 512 \<le> 512 * snd (size_of c')
            \<and> 512 * snd (size_of c') \<le> (fst (size_of c') + 1) * 512"
    by (auto simp: open_character open_background scale_width_square)
  from k sz have "c' = Resize (Convert (Raster 512 512 1) RGBA) 409 409" by auto
  with r have 1: "compose_images cpu_runtime scene_files (ustr ''character.png'')
      (ustr ''background.png'')
     = PNG (Convert (Paste (Convert (Raster 768 512 2) RGBA)
              (Resize (Convert (Raster 512 512 1) RGBA) 409 409) 192 103) RGB)" by simp
  from ar sz have 3: "scale_width 512 409 512 * 512 \<le> 512 * 409
      \<and> 512 * 409 \<le> (scale_width 512 409 512 + 1) * 512"
    by (simp add: scale_width_square)
  from compose_images_scene [of cpu_runtime scene_files "ustr ''thin.png''" "ustr ''large.png''"]
    not_composable_thin
  have 2: "compose_images cpu_runtime scene_files (ustr ''thin.png'') (ustr ''large.png'')
     = create_placeholder cpu_runtime (ustr ''COMPOSED SCENE'') 768 512" by blast
  from compose_images_scene [of cpu_runtime scene_files "ustr ''wide.png''"
      "ustr ''background.png''"] not_composable_wide
  have 4: "compose_images cpu_runtime scene_files (ustr ''wide.png'') (ustr ''background.png'')
     = create_placeholder cpu_runtime (ustr ''COMPOSED SCENE'') 768 512" by blast
  from 1 2 3 4 show ?thesis by blast
qed

text \<open>
  The claim as stated promises the dimensions of the background for every pair of
  readable images. A character of 1 by 1000 pixels on a background of 800 by 600 is
  scaled to the width \<open>int(1 * (480 / 1000)) = 0\<close>, which \<open>resize\<close> rejects: the result
  is the placeholder of 768 by 512 pixels.
\<close>

theorem compose_images_counterexample:
  "image_open scene_files (ustr ''thin.png'') = Inr (Convert (Raster 1 1000 3) RGBA)
   \<and> image_open scene_files (ustr ''large.png'') = Inr (Convert (Raster 800 600 4) RGBA)
   \<and> size_of (Convert (Raster 800 600 4) RGBA) = (800, 600)
   \<and> data_size (compose_images cpu_runtime scene_files (ustr ''thin.png'') (ustr ''large.png''))
       = Some (768, 512)"
  by (simp add: open_thin open_large compose_images_def resize_def cpu_runtime_def
        create_placeholder_def data_size_def Let_def scale_width_thin)

section \<open>Audio files over the size limit\<close>

text \<open>
  Claim C10. For an uploaded audio file of more than \<open>10 * 1024 * 1024\<close> bytes,
  \<open>_handle_audio_input\<close> returns \<open>False\<close> with the story's status set to \<open>error\<close> and
  its error message to \<open>Audio file too large (max 10MB)\<close>, the story saved, no
  transcription started and no transcribed text stored; \<open>validate_audio_file\<close> rejects
  the file as well, its limit \<open>MAX_FILE_SIZE\<close> being the same number.
\<close>

theorem audio_too_large:
  "upload_size audio > 10 * 1024 * 1024 \<Longrightarrow>
     (case handle_audio_input env w story audio of
        (success, story', w') \<Rightarrow>
          \<not> success
          \<and> status story' = Error
          \<and> error_message story' = ustr ''Audio file too large (max 10MB)''
          \<and> transcribed_text story' = transcribed_text story
          \<and> transcriptions w' = transcriptions w
          \<and> story' \<in> set (table w'))
     \<and> \<not> fst (validate_audio_file lower audio)
     \<and> MAX_FILE_SIZE = 10 * 1024 * 1024"
  by (simp add: handle_audio_input_def story_save_def save_def messages_add_def Let_def
        db_write_member validate_audio_file_def MAX_FILE_SIZE_def)

theorem audio_too_large_witness:
  "handle_audio_input offline_site empty_world (StoryGeneration_init (ustr ''s1'')) big_audio
     = (False,
        (StoryGeneration_init (ustr ''s1''))
          \<lparr>status := Error, error_message := ustr ''Audio file too large (max 10MB)''\<rparr>,
        empty_world
          \<lparr>table := [(StoryGeneration_init (ustr ''s1''))
              \<lparr>status := Error, error_message := ustr ''Audio file too large (max 10MB)''\<rparr>],
           flashes := [(MsgError, ustr ''Audio file too large'')]\<rparr>)
   \<and> \<not> fst (validate_audio_file ascii_lower big_audio)"
proof -
  have big: "upload_size big_audio > 10 * 1024 * 1024" by (simp add: big_audio_def)
  from audio_too_large [where audio = big_audio and env = offline_site and w = empty_world
      and story = "StoryGeneration_init (ustr ''s1'')" and lower = ascii_lower, OF big]
  have v: "\<not> fst (validate_audio_file ascii_lower big_audio)" by simp
  have "handle_audio_input offline_site empty_world (StoryGeneration_init (ustr ''s1'')) big_audio
     = (False,
        (StoryGeneration_init (ustr ''s1''))
          \<lparr>status := Error, error_message := ustr ''Audio file too large (max 10MB)''\<rparr>,
        empty_world
          \<lparr>table := [(StoryGeneration_init (ustr ''s1''))
              \<lparr>status := Error, error_message := ustr ''Audio file too large (max 10MB)''\<rparr>],
           flashes := [(MsgError, ustr ''Audio file too large'')]\<rparr>)"
    using big
    by (simp add: handle_audio_input_def story_save_def save_def messages_add_def Let_def
          db_write_def empty_world_def StoryGeneration_init_def)
  with v show ?thesis by blast
qed

section \<open>The generation pipeline\<close>

lemma story_save_story:
  "fst (story_save w s) =
     (if story_text s \<noteq> [] then s\<lparr>story_word_count := int (length (py_split (story_text s)))\<rparr>
      else s)"
  by (simp add: story_save_def save_def Let_def)

lemma story_save_world:
  "snd (story_save w s) = w\<lparr>table := db_write (table w) (fst (story_save w s))\<rparr>"
  by (simp add: story_save_def save_def Let_def)

lemma story_save_member: "fst (story_save w s) \<in> set (table (snd (story_save w s)))"
  by (simp add: story_save_world db_write_member)

lemma try_generate_None:
  assumes "try_generate env w story length_arg image_style = (None, story', w')"
  shows "status story' = Completed
    \<and> generation_time story' = Some (clock env 1 - clock env 0)
    \<and> story' \<in> set (table w')"
proof -
  from assms obtain s4 w2 where
    sv: "story_save w2 s4 = (story', w')" and
    st: "status s4 = Completed" and
    gt: "generation_time s4 = Some (clock env 1 - clock env 0)"
    by (auto simp: try_generate_def Let_def split: option.splits if_splits prod.splits)
  from sv have e: "story' = fst (story_save w2 s4)" "w' = snd (story_save w2 s4)" by simp_all
  show ?thesis
    using st gt story_save_member [of w2 s4] by (simp add: e story_save_story)
qed

text \<open>
  Claim C3. \<open>_generate_enhanced_story_content\<close> is a total function, and the story it
  leaves has status \<open>completed\<close> or \<open>error\<close>, never \<open>processing\<close>: when a step of the
  \<open>try\<close> block raised, the status is \<open>error\<close> and the error message is the text of
  the exception; otherwise the status is \<open>completed\<close> and \<open>generation_time\<close> is the
  time elapsed. In both cases the story has been saved: it is a row of the table.
\<close>

theorem generation_ends_completed_or_error:
  "(case try_generate env w story length_arg image_style of
      (None, s1, w1) \<Rightarrow>
        status (fst (generate_enhanced_story_content env w story length_arg image_style))
          = Completed
        \<and> generation_time
            (fst (generate_enhanced_story_content env w story length_arg image_style))
          = Some (clock env 1 - clock env 0)
    | (Some e, s1, w1) \<Rightarrow>
        status (fst (generate_enhanced_story_content env w story length_arg image_style))
          = Error
        \<and> error_message
            (fst (generate_enhanced_story_content env w story length_arg image_style))
          = exn_text e)
   \<and> (status (fst (generate_enhanced_story_content env w story length_arg image_style))
         = Completed
       \<or> status (fst (generate_enhanced_story_content env w story length_arg image_style))
         = Error)
   \<and> fst (generate_enhanced_story_content env w story length_arg image_style)
       \<in> set (table (snd (generate_enhanced_story_content env w story length_arg image_style)))"
proof (cases "try_generate env w story length_arg image_style")
  case (fields r s1 w1)
  show ?thesis
  proof (cases r)
    case None
    with fields have t: "try_generate env w story length_arg image_style = (None, s1, w1)"
      by simp
    from try_generate_None [OF t] show ?thesis
      by (simp add: generate_enhanced_story_content_def t)
  next
    case (Some e)
    with fields have t: "try_generate env w story length_arg image_style = (Some e, s1, w1)"
      by simp
    show ?thesis
      using story_save_member [of w1 "s1\<lparr>status := Error, error_message := exn_text e\<rparr>"]
      by (simp add: generate_enhanced_story_content_def t story_save_story)
  qed
qed

lemma split_on_acc_nonempty: "split_on_acc sep w s \<noteq> []"
  by (induction s arbitrary: w) auto

lemma split_on_acc_no_sep: "sep \<notin> set s \<Longrightarrow> split_on_acc sep w s = [w @ s]"
  by (induction s arbitrary: w) auto

lemma last_split_on_acc:
  "last (split_on_acc sep w (xs @ sep # ys)) = last (split_on_acc sep [] ys)"
  by (induction xs arbitrary: w) (auto simp: split_on_acc_nonempty)

lemma png_extension: "last (split_on 46 (x @ ustr ''.png'')) = ustr ''png''"
proof -
  have e: "x @ ustr ''.png'' = x @ 46 # ustr ''png''" by (simp add: ustr_def)
  have n: "46 \<notin> set (ustr ''png'')" by (simp add: ustr_def)
  show ?thesis
    unfolding split_on_def e last_split_on_acc
    by (simp add: split_on_acc_no_sep [OF n])
qed

lemma generated_stories: "path_join (ustr ''generated'') (ustr ''stories'') = ustr ''generated/stories''"
  by (simp add: path_join_def ustr_def)

lemma story_image_path_png:
  "story_image_path u s (x @ ustr ''.png'')
     = path_join (path_join (ustr ''generated/stories'') (story_id s)) (u @ ustr ''.png'')"
proof -
  have "ustr ''.'' @ ustr ''png'' = ustr ''.png''" by (simp add: ustr_def)
  then show ?thesis
    by (simp add: story_image_path_def Let_def png_extension generated_stories)
qed

lemma path_join_nonempty: "b \<noteq> [] \<Longrightarrow> path_join a b \<noteq> []"
  by (simp add: path_join_def)

lemma story_image_path_nonempty: "story_image_path u s f \<noteq> []"
  by (simp add: story_image_path_def Let_def path_join_nonempty ustr_def)

lemma story_image_path_id:
  "story_id a = story_id b \<Longrightarrow> story_image_path u a f = story_image_path u b f"
  by (simp add: story_image_path_def)

lemma fallback_character_description_nonempty: "fallback_character_description lower s \<noteq> []"
  by (simp add: fallback_character_description_def Let_def knight_description_def
        wizard_description_def explorer_description_def adventurer_description_def ustr_def)

lemma fallback_scene_description_nonempty: "fallback_scene_description lower s \<noteq> []"
  by (simp add: fallback_scene_description_def Let_def forest_description_def
        castle_description_def space_description_def landscape_description_def ustr_def)

lemma character_description_nonempty:
  "fst (generate_character_description lower srv gen ps s) \<noteq> []"
  by (simp add: generate_character_description_def fallback_character_description_nonempty
        split: prod.splits)

lemma scene_description_nonempty:
  "fst (generate_scene_description lower srv gen ps s) \<noteq> []"
  by (simp add: generate_scene_description_def fallback_scene_description_nonempty
        split: prod.splits)

lemma story_more_than_100:
  "100 < length (py_split (fst (generate_story lower srv gen ps p la)))"
  using fallback_story_words [of lower p]
  by (simp add: generate_story_def length_py_split split: prod.splits)

lemma generate_texts_facts:
  assumes "generate_texts env w story input_text length_arg = (s1, w1)"
  shows "100 < length (py_split (story_text s1))"
    and "character_description s1 \<noteq> []"
    and "background_description s1 \<noteq> []"
    and "story_id s1 = story_id story \<and> prompt s1 = prompt story
         \<and> input_method s1 = input_method story"
    and "table w1 = table w \<and> media w1 = media w \<and> uuids w1 = uuids w
         \<and> transcriptions w1 = transcriptions w \<and> flashes w1 = flashes w"
  using assms [symmetric] story_more_than_100 character_description_nonempty
    scene_description_nonempty
  by (simp_all add: generate_texts_def Let_def case_prod_beta)

lemma field_file_save_Inr:
  assumes "field_file_save env w inst name content = (Inr stored, w1)"
  shows "stored = story_image_path (uuid4 env (uuids w)) inst name"
    and "w1 = w\<lparr>uuids := Suc (uuids w), media := (stored, content) # media w\<rparr>"
  using assms by (auto simp: field_file_save_def Let_def split: option.splits)

lemma field_file_save_table: "table (snd (field_file_save env w inst name content)) = table w"
  by (simp add: field_file_save_def Let_def split: option.splits)

lemma field_file_save_cases:
  "field_file_save env w inst name content =
     (case storage_fault env (story_image_path (uuid4 env (uuids w)) inst name) of
        Some e \<Rightarrow> (Inl e, w\<lparr>uuids := Suc (uuids w)\<rparr>)
      | None \<Rightarrow>
          (Inr (story_image_path (uuid4 env (uuids w)) inst name),
           w\<lparr>uuids := Suc (uuids w),
             media := (story_image_path (uuid4 env (uuids w)) inst name, content) # media w\<rparr>))"
  by (simp add: field_file_save_def Let_def split: option.splits)

lemma story_image_path_upd [simp]:
  "story_image_path u (s\<lparr>character_image := a\<rparr>) f = story_image_path u s f"
  "story_image_path u (s\<lparr>background_image := b\<rparr>) f = story_image_path u s f"
  by (simp_all add: story_image_path_def)

lemma generate_images_None:
  assumes "generate_images env w s image_style = (None, s2, w2)"
  shows "character_image s2 = Some (story_image_path (uuid4 env (uuids w)) s
            (ustr ''character_'' @ story_id s @ ustr ''.png''))"
    and "background_image s2 = Some (story_image_path (uuid4 env (Suc (uuids w))) s
            (ustr ''background_'' @ story_id s @ ustr ''.png''))"
    and "composed_image s2 = Some (story_image_path (uuid4 env (Suc (Suc (uuids w)))) s
            (ustr ''composed_'' @ story_id s @ ustr ''.png''))"
    and "story_image_path (uuid4 env (uuids w)) s
            (ustr ''character_'' @ story_id s @ ustr ''.png'') \<in> fst ` set (media w2)"
    and "story_image_path (uuid4 env (Suc (uuids w))) s
            (ustr ''background_'' @ story_id s @ ustr ''.png'') \<in> fst ` set (media w2)"
    and "story_image_path (uuid4 env (Suc (Suc (uuids w)))) s
            (ustr ''composed_'' @ story_id s @ ustr ''.png'') \<in> fst ` set (media w2)"
    and "story_text s2 = story_text s \<and> character_description s2 = character_description s
         \<and> background_description s2 = background_description s
         \<and> story_id s2 = story_id s \<and> prompt s2 = prompt s
         \<and> input_method s2 = input_method s"
    and "table w2 = table w"
  using assms
  by (auto simp: generate_images_def compose_scene_def field_file_save_cases Let_def
        case_prod_beta has_file_def story_image_path_nonempty
      split: option.splits if_splits)

lemma save_fields [simp]:
  "story_id (fst (save fi t s)) = story_id s"
  "prompt (fst (save fi t s)) = prompt s"
  "input_method (fst (save fi t s)) = input_method s"
  "status (fst (save fi t s)) = status s"
  "error_message (fst (save fi t s)) = error_message s"
  "transcribed_text (fst (save fi t s)) = transcribed_text s"
  "story_text (fst (save fi t s)) = story_text s"
  "character_description (fst (save fi t s)) = character_description s"
  "background_description (fst (save fi t s)) = background_description s"
  "character_image (fst (save fi t s)) = character_image s"
  "background_image (fst (save fi t s)) = background_image s"
  "composed_image (fst (save fi t s)) = composed_image s"
  "generation_time (fst (save fi t s)) = generation_time s"
  by (simp_all add: save_def Let_def)

lemma story_save_eq:
  "story_save w s =
     (fst (save False (table w) s),
      w\<lparr>table := db_write (table w) (fst (save False (table w) s))\<rparr>)"
  by (simp add: story_save_def save_def Let_def)

lemma db_write_ids:
  "story_id s \<in> set (map story_id t) \<Longrightarrow> map story_id (db_write t s) = map story_id t"
  by (auto simp: db_write_def list_ex_iff)

lemma try_generate_fields:
  assumes "try_generate env w story length_arg image_style = (None, s', w')"
  shows "100 < length (py_split (story_text s'))"
    and "character_description s' \<noteq> []"
    and "background_description s' \<noteq> []"
    and "character_image s' = Some (story_image_path (uuid4 env (uuids w)) story
            (ustr ''character_'' @ story_id story @ ustr ''.png''))"
    and "background_image s' = Some (story_image_path (uuid4 env (Suc (uuids w))) story
            (ustr ''background_'' @ story_id story @ ustr ''.png''))"
    and "composed_image s' = Some (story_image_path (uuid4 env (Suc (Suc (uuids w)))) story
            (ustr ''composed_'' @ story_id story @ ustr ''.png''))"
    and "story_image_path (uuid4 env (uuids w)) story
            (ustr ''character_'' @ story_id story @ ustr ''.png'') \<in> fst ` set (media w')"
    and "story_image_path (uuid4 env (Suc (uuids w))) story
            (ustr ''background_'' @ story_id story @ ustr ''.png'') \<in> fst ` set (media w')"
    and "story_image_path (uuid4 env (Suc (Suc (uuids w)))) story
            (ustr ''composed_'' @ story_id story @ ustr ''.png'') \<in> fst ` set (media w')"
proof -
  from assms obtain s1 w1 s2 w2 where
    gt: "generate_texts env w story (get_input_text story) length_arg = (s1, w1)" and
    gi: "generate_images env w1 s1 image_style = (None, s2, w2)" and
    sv: "story_save w2
           (s2\<lparr>image_model_used := ustr ''Stable Diffusion ('' @ image_style @ ustr '')'',
               status := Completed,
               generation_time := Some (clock env 1 - clock env 0)\<rparr>) = (s', w')"
    by (auto simp: try_generate_def Let_def split: option.splits if_splits prod.splits)
  note t = generate_texts_facts [OF gt]
  note i = generate_images_None [OF gi]
  from t have id: "story_id s1 = story_id story" and u: "uuids w1 = uuids w" by simp_all
  have p: "\<And>k f. story_image_path k s1 f = story_image_path k story f"
    using id by (rule story_image_path_id)
  from sv have s': "s' = fst (save False (table w2)
           (s2\<lparr>image_model_used := ustr ''Stable Diffusion ('' @ image_style @ ustr '')'',
               status := Completed,
               generation_time := Some (clock env 1 - clock env 0)\<rparr>))"
    and w': "media w' = media w2"
    by (auto simp: story_save_eq)
  show "100 < length (py_split (story_text s'))" using t i by (simp add: s')
  show "character_description s' \<noteq> []" using t i by (simp add: s')
  show "background_description s' \<noteq> []" using t i by (simp add: s')
  show "character_image s' = Some (story_image_path (uuid4 env (uuids w)) story
            (ustr ''character_'' @ story_id story @ ustr ''.png''))"
    using i(1) by (simp add: s' p u id)
  show "background_image s' = Some (story_image_path (uuid4 env (Suc (uuids w))) story
            (ustr ''background_'' @ story_id story @ ustr ''.png''))"
    using i(2) by (simp add: s' p u id)
  show "composed_image s' = Some (story_image_path (uuid4 env (Suc (Suc (uuids w)))) story
            (ustr ''composed_'' @ story_id story @ ustr ''.png''))"
    using i(3) by (simp add: s' p u id)
  show "story_image_path (uuid4 env (uuids w)) story
            (ustr ''character_'' @ story_id story @ ustr ''.png'') \<in> fst ` set (media w')"
    using i(4) by (simp add: w' p u id)
  show "story_image_path (uuid4 env (Suc (uuids w))) story
            (ustr ''background_'' @ story_id story @ ustr ''.png'') \<in> fst ` set (media w')"
    using i(5) by (simp add: w' p u id)
  show "story_image_path (uuid4 env (Suc (Suc (uuids w)))) story
            (ustr ''composed_'' @ story_id story @ ustr ''.png'') \<in> fst ` set (media w')"
    using i(6) by (simp add: w' p u id)
qed

lemma generation_status:
  "status (fst (generate_enhanced_story_content env w story length_arg image_style)) = Completed
     \<longleftrightarrow> fst (try_generate env w story length_arg image_style) = None"
proof (cases "try_generate env w story length_arg image_style")
  case (fields r s1 w1)
  show ?thesis
  proof (cases r)
    case None
    with fields have t: "try_generate env w story length_arg image_style = (None, s1, w1)"
      by simp
    from try_generate_None [OF t] show ?thesis
      by (simp add: generate_enhanced_story_content_def t)
  next
    case (Some e)
    with fields have t: "try_generate env w story length_arg image_style = (Some e, s1, w1)"
      by simp
    show ?thesis
      by (simp add: generate_enhanced_story_content_def t story_save_eq)
  qed
qed

lemma generate_images_succeeds:
  assumes "\<And>name. storage_fault env name = None"
  shows "fst (generate_images env w s image_style) = None"
  using assms
  by (simp add: generate_images_def compose_scene_def field_file_save_cases Let_def
        case_prod_beta)

lemma try_generate_succeeds:
  assumes "import_fault env = None" and "\<And>name. storage_fault env name = None"
    and "get_input_text story \<noteq> []"
  shows "fst (try_generate env w story length_arg image_style) = None"
proof (cases "generate_texts env w story (get_input_text story) length_arg")
  case (Pair s1 w1)
  show ?thesis
  proof (cases "generate_images env w1 s1 image_style")
    case (fields r s2 w2)
    from generate_images_succeeds [of env w1 s1 image_style] assms(2) fields
    have "r = None" by simp
    with fields Pair assms(1,3) show ?thesis
      by (simp add: try_generate_def Let_def case_prod_beta)
  qed
qed

lemma generate_images_keeps:
  assumes "generate_images env w s image_style = (r, s2, w2)"
  shows "story_id s2 = story_id s" and "prompt s2 = prompt s"
    and "input_method s2 = input_method s" and "table w2 = table w"
  using assms
  by (auto simp: generate_images_def compose_scene_def field_file_save_cases Let_def
        case_prod_beta split: option.splits if_splits)

lemma try_generate_keeps:
  assumes "try_generate env w s length_arg image_style = (r, s', w')"
  shows "story_id s' = story_id s" and "prompt s' = prompt s"
    and "input_method s' = input_method s"
    and "story_id s \<in> set (map story_id (table w))
           \<Longrightarrow> map story_id (table w') = map story_id (table w)"
proof -
  obtain s1 w1 where gt: "generate_texts env w s (get_input_text s) length_arg = (s1, w1)"
    by (cases "generate_texts env w s (get_input_text s) length_arg")
  obtain r2 s2 w2 where gi: "generate_images env w1 s1 image_style = (r2, s2, w2)"
    by (cases "generate_images env w1 s1 image_style")
  note t = generate_texts_facts(4,5) [OF gt]
  note i = generate_images_keeps [OF gi]
  have k: "story_id s2 = story_id s" "prompt s2 = prompt s" "input_method s2 = input_method s"
    "table w2 = table w"
    using t i by simp_all
  from assms gt gi k show "story_id s' = story_id s"
    by (auto simp: try_generate_def Let_def story_save_eq split: option.splits if_splits)
  from assms gt gi k show "prompt s' = prompt s"
    by (auto simp: try_generate_def Let_def story_save_eq split: option.splits if_splits)
  from assms gt gi k show "input_method s' = input_method s"
    by (auto simp: try_generate_def Let_def story_save_eq split: option.splits if_splits)
  assume "story_id s \<in> set (map story_id (table w))"
  with assms gt gi k show "map story_id (table w') = map story_id (table w)"
    by (auto simp: try_generate_def Let_def story_save_eq db_write_ids
          split: option.splits if_splits)
qed

lemma generation_keeps:
  assumes "generate_enhanced_story_content env w s length_arg image_style = (s', w')"
  shows "story_id s' = story_id s" and "prompt s' = prompt s"
    and "input_method s' = input_method s"
    and "story_id s \<in> set (map story_id (table w))
           \<Longrightarrow> map story_id (table w') = map story_id (table w)"
    and "s' \<in> set (table w')"
    and "status s' = Completed \<or> status s' = Error"
proof -
  obtain r s1 w1 where t: "try_generate env w s length_arg image_style = (r, s1, w1)"
    by (cases "try_generate env w s length_arg image_style")
  note k = try_generate_keeps [OF t]
  from assms t k(1) show "story_id s' = story_id s"
    by (auto simp: generate_enhanced_story_content_def story_save_eq split: option.splits)
  from assms t k(2) show "prompt s' = prompt s"
    by (auto simp: generate_enhanced_story_content_def story_save_eq split: option.splits)
  from assms t k(3) show "input_method s' = input_method s"
    by (auto simp: generate_enhanced_story_content_def story_save_eq split: option.splits)
  show "s' \<in> set (table w')"
  proof (cases r)
    case None
    with t try_generate_None [of env w s length_arg image_style s1 w1] assms
    show ?thesis by (simp add: generate_enhanced_story_content_def)
  next
    case (Some e)
    with t assms show ?thesis
      by (auto simp: generate_enhanced_story_content_def story_save_eq db_write_member)
  qed
  show "status s' = Completed \<or> status s' = Error"
  proof (cases r)
    case None
    with t try_generate_None [of env w s length_arg image_style s1 w1] assms
    show ?thesis by (simp add: generate_enhanced_story_content_def)
  next
    case (Some e)
    with t assms show ?thesis
      by (auto simp: generate_enhanced_story_content_def story_save_eq)
  qed
  assume a: "story_id s \<in> set (map story_id (table w))"
  show "map story_id (table w') = map story_id (table w)"
  proof (cases r)
    case None
    with t k(4) [OF a] assms show ?thesis
      by (simp add: generate_enhanced_story_content_def)
  next
    case (Some e)
    with t k(1) k(4) [OF a] a assms show ?thesis
      by (auto simp: generate_enhanced_story_content_def story_save_eq db_write_ids)
  qed
qed

lemma handle_audio_input_keeps:
  assumes "handle_audio_input env w s audio = (ok, s', w')"
  shows "story_id s' = story_id s" and "prompt s' = prompt s"
    and "input_method s' = input_method s"
    and "uuids w' = uuids w" and "media w' = media w"
    and "s' \<in> set (table w')"
    and "story_id s \<in> set (map story_id (table w))
           \<Longrightarrow> map story_id (table w') = map story_id (table w)"
  using assms
  by (auto simp: handle_audio_input_def audio_failed_def safe_transcribe_audio_def
        story_save_eq messages_add_def Let_def db_write_member db_write_ids
      split: if_splits sum.splits)

section \<open>Creating the record\<close>

lemma objects_create_facts:
  assumes "objects_create env w usr p m st = (story, w1)"
  shows "story_id story = uuid4 env (uuids w)" and "prompt story = p"
    and "input_method story = m" and "table w1 = table w @ [story]"
    and "uuids w1 = Suc (uuids w)" and "media w1 = media w"
  using assms
  by (auto simp: objects_create_def Let_def case_prod_beta StoryGeneration_init_def save_def)

lemma post_run:
  assumes "table_exists env"
    and "py_strip (option_default [] (POST_prompt req)) \<noteq> [] \<or> FILES_audio_file req \<noteq> None"
  obtains story w1 ok s2 w2 s3 w3 s4 w4 where
    "story_id story = uuid4 env (uuids w)"
    "prompt story = py_strip (option_default [] (POST_prompt req))"
    "input_method story =
       (if FILES_audio_file req = None then TextInput
        else if py_strip (option_default [] (POST_prompt req)) = [] then AudioInput
        else BothInput)"
    "table w1 = table w @ [story]" "uuids w1 = Suc (uuids w)" "media w1 = media w"
    "(case FILES_audio_file req of None \<Rightarrow> (True, story, w1)
      | Some a \<Rightarrow> handle_audio_input env w1 story a) = (ok, s2, w2)"
    "story_save w2 (s2\<lparr>status := Processing\<rparr>) = (s3, w3)"
    "generate_enhanced_story_content env w3 s3
       (option_default (ustr ''medium'') (POST_story_length req))
       (option_default (ustr ''realistic'') (POST_image_style req)) = (s4, w4)"
    "post env w req =
       (if \<not> ok then (RedirectIndex, w2)
        else if status s4 = Error then
          (RedirectIndex,
           messages_add MsgError (ustr ''Generation error: '' @ error_message s4) w4)
        else
          (RedirectResult (story_id s4),
           messages_add MsgSuccess
             ([127881] @ ustr '' Enhanced story generated with Ollama + GPU!'') w4))"
proof -
  let ?P = "py_strip (option_default [] (POST_prompt req))"
  let ?A = "FILES_audio_file req"
  let ?M = "if ?P \<noteq> [] \<and> ?A = None then TextInput
            else if ?A \<noteq> None \<and> ?P = [] then AudioInput else BothInput"
  obtain story w1 where oc:
    "objects_create env w (authenticated_user req) ?P ?M Pending = (story, w1)"
    by (cases "objects_create env w (authenticated_user req) ?P ?M Pending")
  obtain ok s2 w2 where au:
    "(case ?A of None \<Rightarrow> (True, story, w1)
      | Some a \<Rightarrow> handle_audio_input env w1 story a) = (ok, s2, w2)"
    by (cases "(case ?A of None \<Rightarrow> (True, story, w1)
      | Some a \<Rightarrow> handle_audio_input env w1 story a)")
  obtain s3 w3 where sv: "story_save w2 (s2\<lparr>status := Processing\<rparr>) = (s3, w3)"
    by (cases "story_save w2 (s2\<lparr>status := Processing\<rparr>)")
  obtain s4 w4 where ge: "generate_enhanced_story_content env w3 s3
       (option_default (ustr ''medium'') (POST_story_length req))
       (option_default (ustr ''realistic'') (POST_image_style req)) = (s4, w4)"
    by (cases "generate_enhanced_story_content env w3 s3
       (option_default (ustr ''medium'') (POST_story_length req))
       (option_default (ustr ''realistic'') (POST_image_style req))")
  note f = objects_create_facts [OF oc]
  have m: "input_method story =
       (if ?A = None then TextInput else if ?P = [] then AudioInput else BothInput)"
    using f(3) assms(2) by auto
  have p: "post env w req =
       (if \<not> ok then (RedirectIndex, w2)
        else if status s4 = Error then
          (RedirectIndex,
           messages_add MsgError (ustr ''Generation error: '' @ error_message s4) w4)
        else
          (RedirectResult (story_id s4),
           messages_add MsgSuccess
             ([127881] @ ustr '' Enhanced story generated with Ollama + GPU!'') w4))"
    using assms oc au sv ge by (auto simp: post_def Let_def)
  from that [OF f(1) f(2) m f(4) f(5) f(6) au sv ge p] show thesis .
qed

lemma messages_add_fields [simp]:
  "table (messages_add l m w) = table w" "media (messages_add l m w) = media w"
  "uuids (messages_add l m w) = uuids w"
  by (simp_all add: messages_add_def)

lemma post_created:
  assumes "table_exists env"
    and "py_strip (option_default [] (POST_prompt req)) \<noteq> [] \<or> FILES_audio_file req \<noteq> None"
  shows "map story_id (table (snd (post env w req)))
           = map story_id (table w) @ [uuid4 env (uuids w)]
    \<and> (\<exists>row \<in> set (table (snd (post env w req))).
            story_id row = uuid4 env (uuids w)
          \<and> prompt row = py_strip (option_default [] (POST_prompt req))
          \<and> input_method row =
              (if FILES_audio_file req = None then TextInput
               else if py_strip (option_default [] (POST_prompt req)) = [] then AudioInput
               else BothInput))"
proof (rule post_run [OF assms, of w])
  fix story w1 ok s2 w2 s3 w3 s4 w4
  let ?P = "py_strip (option_default [] (POST_prompt req))"
  let ?M = "if FILES_audio_file req = None then TextInput
            else if ?P = [] then AudioInput else BothInput"
  assume id: "story_id story = uuid4 env (uuids w)" and pr: "prompt story = ?P"
    and im: "input_method story = ?M"
    and t1: "table w1 = table w @ [story]"
    and u1: "uuids w1 = Suc (uuids w)" and m1: "media w1 = media w"
    and au: "(case FILES_audio_file req of None \<Rightarrow> (True, story, w1)
              | Some a \<Rightarrow> handle_audio_input env w1 story a) = (ok, s2, w2)"
    and sv: "story_save w2 (s2\<lparr>status := Processing\<rparr>) = (s3, w3)"
    and ge: "generate_enhanced_story_content env w3 s3
       (option_default (ustr ''medium'') (POST_story_length req))
       (option_default (ustr ''realistic'') (POST_image_style req)) = (s4, w4)"
    and po: "post env w req =
       (if \<not> ok then (RedirectIndex, w2)
        else if status s4 = Error then
          (RedirectIndex,
           messages_add MsgError (ustr ''Generation error: '' @ error_message s4) w4)
        else
          (RedirectResult (story_id s4),
           messages_add MsgSuccess
             ([127881] @ ustr '' Enhanced story generated with Ollama + GPU!'') w4))"
  have k1: "story_id story \<in> set (map story_id (table w1))" by (simp add: t1)
  have ids1: "map story_id (table w1) = map story_id (table w) @ [uuid4 env (uuids w)]"
    by (simp add: t1 id)
  have a2: "story_id s2 = story_id story \<and> prompt s2 = prompt story
      \<and> input_method s2 = input_method story
      \<and> map story_id (table w2) = map story_id (table w1)
      \<and> s2 \<in> set (table w2)"
  proof (cases "FILES_audio_file req")
    case None
    with au have "s2 = story" "w2 = w1" by simp_all
    then show ?thesis by (simp add: t1)
  next
    case (Some a)
    with au have h: "handle_audio_input env w1 story a = (ok, s2, w2)" by simp
    from handle_audio_input_keeps(1,2,3,6) [OF h] handle_audio_input_keeps(7) [OF h k1]
    show ?thesis by simp
  qed
  have k2: "story_id s2 \<in> set (map story_id (table w2))" using a2 k1 by simp
  from sv have s3: "s3 = fst (save False (table w2) (s2\<lparr>status := Processing\<rparr>))"
    and w3: "table w3 = db_write (table w2) s3"
    by (auto simp: story_save_eq)
  have a3: "story_id s3 = story_id s2 \<and> prompt s3 = prompt s2
      \<and> input_method s3 = input_method s2"
    by (simp add: s3)
  have ids3: "map story_id (table w3) = map story_id (table w2)"
    using k2 a3 by (simp add: w3 db_write_ids)
  have k3: "story_id s3 \<in> set (map story_id (table w3))" using ids3 k2 a3 by simp
  note g = generation_keeps [OF ge]
  have a4: "story_id s4 = story_id story \<and> prompt s4 = prompt story
      \<and> input_method s4 = input_method story
      \<and> map story_id (table w4) = map story_id (table w1)
      \<and> s4 \<in> set (table w4)"
    using g(1,2,3,5) g(4) [OF k3] a3 a2 ids3 by simp
  have tb: "table (snd (post env w req)) = (if ok then table w4 else table w2)"
    by (simp add: po)
  have ids: "map story_id (table (snd (post env w req)))
           = map story_id (table w) @ [uuid4 env (uuids w)]"
    using a2 a4 ids1 by (simp add: tb)
  let ?row = "if ok then s4 else s2"
  have r1: "?row \<in> set (table (snd (post env w req)))" using a2 a4 by (simp add: tb)
  have r2: "story_id ?row = uuid4 env (uuids w) \<and> prompt ?row = ?P \<and> input_method ?row = ?M"
    using a2 a4 id pr im by simp
  from r1 r2 have "\<exists>row \<in> set (table (snd (post env w req))).
            story_id row = uuid4 env (uuids w) \<and> prompt row = ?P \<and> input_method row = ?M"
    by (rule bexI [rotated])
  with ids show "map story_id (table (snd (post env w req)))
           = map story_id (table w) @ [uuid4 env (uuids w)]
    \<and> (\<exists>row \<in> set (table (snd (post env w req))).
            story_id row = uuid4 env (uuids w) \<and> prompt row = ?P \<and> input_method row = ?M)"
    by (rule conjI)
qed

text \<open>
  Claim C4, as amended. When the stories table exists, \<open>post\<close> creates a record if and
  only if the stripped prompt is not empty or an audio file is attached: in that case
  the table gains exactly one row, with a freshly drawn key, the stripped prompt, and
  the input method \<open>text\<close> for a prompt alone, \<open>audio\<close> for an audio file alone and
  \<open>both\<close> for both; otherwise \<open>post\<close> redirects to the index with an error message and
  the table is unchanged. When the table does not exist, \<open>post\<close> redirects with an
  error message and creates nothing, whatever the request holds. \<open>get_input_text\<close>
  returns the prompt, the transcribed text, or the two joined by a space and stripped,
  according to the input method.
\<close>

theorem post_creates_record:
  "(table_exists env \<longrightarrow>
      ((py_strip (option_default [] (POST_prompt req)) \<noteq> [] \<or> FILES_audio_file req \<noteq> None)
         \<longrightarrow>
           map story_id (table (snd (post env w req)))
             = map story_id (table w) @ [uuid4 env (uuids w)]
         \<and> (\<exists>row \<in> set (table (snd (post env w req))).
                story_id row = uuid4 env (uuids w)
              \<and> prompt row = py_strip (option_default [] (POST_prompt req))
              \<and> input_method row =
                  (if FILES_audio_file req = None then TextInput
                   else if py_strip (option_default [] (POST_prompt req)) = [] then AudioInput
                   else BothInput)))
      \<and> (py_strip (option_default [] (POST_prompt req)) = [] \<and> FILES_audio_file req = None
         \<longrightarrow> post env w req =
               (RedirectIndex,
                messages_add MsgError
                  (ustr ''Please provide either text input or audio file.'') w)))
   \<and> (\<not> table_exists env \<longrightarrow>
        post env w req =
          (RedirectIndex,
           messages_add MsgError
             ([128680] @ ustr '' Database not ready! Please run: python manage.py migrate'') w))
   \<and> table (messages_add l m w) = table w
   \<and> (input_method s = TextInput \<longrightarrow> get_input_text s = prompt s)
   \<and> (input_method s = AudioInput \<longrightarrow> get_input_text s = transcribed_text s)
   \<and> (input_method s = BothInput \<longrightarrow>
        get_input_text s = py_strip (prompt s @ ustr '' '' @ transcribed_text s))"
proof -
  have a: "table_exists env \<longrightarrow>
      ((py_strip (option_default [] (POST_prompt req)) \<noteq> [] \<or> FILES_audio_file req \<noteq> None)
         \<longrightarrow>
           map story_id (table (snd (post env w req)))
             = map story_id (table w) @ [uuid4 env (uuids w)]
         \<and> (\<exists>row \<in> set (table (snd (post env w req))).
                story_id row = uuid4 env (uuids w)
              \<and> prompt row = py_strip (option_default [] (POST_prompt req))
              \<and> input_method row =
                  (if FILES_audio_file req = None then TextInput
                   else if py_strip (option_default [] (POST_prompt req)) = [] then AudioInput
                   else BothInput)))
      \<and> (py_strip (option_default [] (POST_prompt req)) = [] \<and> FILES_audio_file req = None
         \<longrightarrow> post env w req =
               (RedirectIndex,
                messages_add MsgError
                  (ustr ''Please provide either text input or audio file.'') w))"
  proof (intro impI conjI)
    assume "table_exists env"
      and "py_strip (option_default [] (POST_prompt req)) \<noteq> [] \<or> FILES_audio_file req \<noteq> None"
    from post_created [OF this, of w]
    show "map story_id (table (snd (post env w req)))
             = map story_id (table w) @ [uuid4 env (uuids w)]"
      and "\<exists>row \<in> set (table (snd (post env w req))).
                story_id row = uuid4 env (uuids w)
              \<and> prompt row = py_strip (option_default [] (POST_prompt req))
              \<and> input_method row =
                  (if FILES_audio_file req = None then TextInput
                   else if py_strip (option_default [] (POST_prompt req)) = [] then AudioInput
                   else BothInput)"
      by (rule conjunct1, rule conjunct2)
  next
    assume "table_exists env"
      and "py_strip (option_default [] (POST_prompt req)) = [] \<and> FILES_audio_file req = None"
    then show "post env w req =
               (RedirectIndex,
                messages_add MsgError
                  (ustr ''Please provide either text input or audio file.'') w)"
      by (simp add: post_def Let_def)
  qed
  have c: "\<not> table_exists env \<longrightarrow>
        post env w req =
          (RedirectIndex,
           messages_add MsgError
             ([128680] @ ustr '' Database not ready! Please run: python manage.py migrate'') w)"
    by (simp add: post_def)
  have e: "table (messages_add l m w) = table w" by (simp add: messages_add_def)
  have d1: "input_method s = TextInput \<longrightarrow> get_input_text s = prompt s"
    by (simp add: get_input_text_def)
  have d2: "input_method s = AudioInput \<longrightarrow> get_input_text s = transcribed_text s"
    by (simp add: get_input_text_def)
  have d3: "input_method s = BothInput \<longrightarrow>
        get_input_text s = py_strip (prompt s @ ustr '' '' @ transcribed_text s)"
    by (simp add: get_input_text_def)
  show ?thesis
    by (rule conjI [OF a conjI [OF c conjI [OF e conjI [OF d1 conjI [OF d2 d3]]]]])
qed

lemma strip_knight: "py_strip (ustr '' A Knight '') = ustr ''A Knight''"
  by (simp add: py_strip_def ustr_def py_isspace_def)

lemma strip_blank: "py_strip (ustr ''   '') = []"
  by (simp add: py_strip_def ustr_def py_isspace_def)

text \<open>
  The claim as stated lets the creation depend on the request alone. On a site whose
  table does not exist yet, a request with a prompt creates no record.
\<close>

theorem post_without_table_counterexample:
  "py_strip (option_default [] (POST_prompt text_request)) \<noteq> []
   \<and> table (snd (post unmigrated_site empty_world text_request)) = table empty_world"
proof -
  have "py_strip (option_default [] (POST_prompt text_request)) = ustr ''A Knight''"
    by (simp add: text_request_def option_default_def strip_knight)
  then have "py_strip (option_default [] (POST_prompt text_request)) \<noteq> []"
    by (simp add: ustr_def)
  moreover have "table (snd (post unmigrated_site empty_world text_request)) = table empty_world"
    by (simp add: post_def unmigrated_site_def messages_add_def)
  ultimately show ?thesis by (rule conjI)
qed

theorem post_creates_record_witness:
  "map story_id (table (snd (post offline_site empty_world text_request)))
     = [uuid4 offline_site 0]
   \<and> post offline_site empty_world empty_request
     = (RedirectIndex,
        messages_add MsgError (ustr ''Please provide either text input or audio file.'')
          empty_world)
   \<and> post unmigrated_site empty_world text_request
     = (RedirectIndex,
        messages_add MsgError
          ([128680] @ ustr '' Database not ready! Please run: python manage.py migrate'')
          empty_world)
   \<and> get_input_text knight_story = ustr ''A Knight''
   \<and> get_input_text (knight_story\<lparr>input_method := AudioInput,
                                    transcribed_text := ustr ''hello''\<rparr>) = ustr ''hello''
   \<and> get_input_text (knight_story\<lparr>input_method := BothInput,
                                    transcribed_text := ustr ''hello''\<rparr>)
     = py_strip (ustr ''A Knight'' @ ustr '' '' @ ustr ''hello'')"
proof -
  have te: "table_exists offline_site" by (simp add: offline_site_def)
  have nt: "\<not> table_exists unmigrated_site" by (simp add: unmigrated_site_def)
  have "py_strip (option_default [] (POST_prompt text_request)) = ustr ''A Knight''"
    by (simp add: text_request_def option_default_def strip_knight)
  then have p1: "py_strip (option_default [] (POST_prompt text_request)) \<noteq> []"
    by (simp add: ustr_def)
  have p2: "py_strip (option_default [] (POST_prompt empty_request)) = []
            \<and> FILES_audio_file empty_request = None"
    by (simp add: empty_request_def option_default_def strip_blank)
  note t1 = post_creates_record [of offline_site text_request empty_world MsgError "[]"
      knight_story]
  note t2 = post_creates_record [of offline_site empty_request empty_world MsgError "[]"
      "knight_story\<lparr>input_method := AudioInput, transcribed_text := ustr ''hello''\<rparr>"]
  note t3 = post_creates_record [of unmigrated_site text_request empty_world MsgError "[]"
      "knight_story\<lparr>input_method := BothInput, transcribed_text := ustr ''hello''\<rparr>"]
  from t1 te p1 have 1: "map story_id (table (snd (post offline_site empty_world text_request)))
     = map story_id (table empty_world) @ [uuid4 offline_site (uuids empty_world)]" by blast
  from t2 te p2 have 2: "post offline_site empty_world empty_request
     = (RedirectIndex,
        messages_add MsgError (ustr ''Please provide either text input or audio file.'')
          empty_world)" by blast
  from t3 nt have 3: "post unmigrated_site empty_world text_request
     = (RedirectIndex,
        messages_add MsgError
          ([128680] @ ustr '' Database not ready! Please run: python manage.py migrate'')
          empty_world)" by blast
  have i1: "input_method knight_story = TextInput"
    by (simp add: knight_story_def StoryGeneration_init_def)
  from t1 i1 have 4: "get_input_text knight_story = prompt knight_story" by blast
  from t2 have 5: "get_input_text (knight_story\<lparr>input_method := AudioInput,
      transcribed_text := ustr ''hello''\<rparr>) = ustr ''hello''" by simp
  from t3 have 6: "get_input_text (knight_story\<lparr>input_method := BothInput,
      transcribed_text := ustr ''hello''\<rparr>)
     = py_strip (prompt knight_story @ ustr '' '' @ ustr ''hello'')" by simp
  have pk: "prompt knight_story = ustr ''A Knight''" by (simp add: knight_story_def)
  from 1 2 3 4 5 6 pk show ?thesis by (simp add: empty_world_def)
qed

section \<open>The completed record\<close>

lemma offline_site_no_faults:
  "import_fault offline_site = None" "storage_fault offline_site name = None"
  "table_exists offline_site"
  by (simp_all add: offline_site_def)

lemma knight_input: "get_input_text knight_story \<noteq> []"
  by (simp add: get_input_text_def knight_story_def StoryGeneration_init_def ustr_def)

theorem generation_ends_completed_or_error_witness:
  "status (fst (generate_enhanced_story_content offline_site knight_world knight_story
                 (ustr ''medium'') (ustr ''realistic''))) = Completed
   \<and> generation_time (fst (generate_enhanced_story_content offline_site knight_world
                 knight_story (ustr ''medium'') (ustr ''realistic''))) = Some 1
   \<and> status (fst (generate_enhanced_story_content offline_site knight_world blank_story
                 (ustr ''medium'') (ustr ''realistic''))) = Error
   \<and> error_message (fst (generate_enhanced_story_content offline_site knight_world
                 blank_story (ustr ''medium'') (ustr ''realistic'')))
       = ustr ''No input text available''"
proof -
  have "fst (try_generate offline_site knight_world knight_story (ustr ''medium'')
               (ustr ''realistic'')) = None"
    using offline_site_no_faults(1,2) knight_input by (rule try_generate_succeeds)
  then obtain s1 w1 where t: "try_generate offline_site knight_world knight_story
      (ustr ''medium'') (ustr ''realistic'') = (None, s1, w1)"
    by (cases "try_generate offline_site knight_world knight_story (ustr ''medium'')
               (ustr ''realistic'')") simp
  have c: "clock offline_site 1 - clock offline_site 0 = 1" by (simp add: offline_site_def)
  from generation_ends_completed_or_error [of offline_site knight_world knight_story
      "ustr ''medium''" "ustr ''realistic''"] t c
  have 1: "status (fst (generate_enhanced_story_content offline_site knight_world knight_story
                 (ustr ''medium'') (ustr ''realistic''))) = Completed
   \<and> generation_time (fst (generate_enhanced_story_content offline_site knight_world
                 knight_story (ustr ''medium'') (ustr ''realistic''))) = Some 1"
    by simp
  have tb: "try_generate offline_site knight_world blank_story (ustr ''medium'')
      (ustr ''realistic'')
      = (Some (Exception (ustr ''No input text available'')), blank_story, knight_world)"
    by (simp add: try_generate_def offline_site_def get_input_text_def blank_story_def
          StoryGeneration_init_def)
  from generation_ends_completed_or_error [of offline_site knight_world blank_story
      "ustr ''medium''" "ustr ''realistic''"] tb
  have 2: "status (fst (generate_enhanced_story_content offline_site knight_world blank_story
                 (ustr ''medium'') (ustr ''realistic''))) = Error
   \<and> error_message (fst (generate_enhanced_story_content offline_site knight_world
                 blank_story (ustr ''medium'') (ustr ''realistic'')))
       = ustr ''No input text available''"
    by simp
  from 1 2 show ?thesis by blast
qed

lemma generation_completed:
  assumes "status (fst (generate_enhanced_story_content env w story length_arg image_style))
             = Completed"
  shows "try_generate env w story length_arg image_style
           = (None, generate_enhanced_story_content env w story length_arg image_style)"
proof -
  from assms have "fst (try_generate env w story length_arg image_style) = None"
    by (simp add: generation_status)
  then obtain s1 w1 where t: "try_generate env w story length_arg image_style = (None, s1, w1)"
    by (cases "try_generate env w story length_arg image_style") simp
  then show ?thesis by (simp add: generate_enhanced_story_content_def)
qed

lemma post_result:
  assumes "fst (post env w req) = RedirectResult sid"
  shows "\<exists>s3 w3 la st.
           sid = uuid4 env (uuids w) \<and> story_id s3 = sid
         \<and> status (fst (generate_enhanced_story_content env w3 s3 la st)) = Completed
         \<and> story_id (fst (generate_enhanced_story_content env w3 s3 la st)) = sid
         \<and> table (snd (post env w req))
             = table (snd (generate_enhanced_story_content env w3 s3 la st))
         \<and> media (snd (post env w req))
             = media (snd (generate_enhanced_story_content env w3 s3 la st))"
proof -
  have te: "table_exists env"
  proof (rule ccontr)
    assume "\<not> table_exists env"
    then have "fst (post env w req) = RedirectIndex" by (simp add: post_def)
    with assms show False by simp
  qed
  have ne: "py_strip (option_default [] (POST_prompt req)) \<noteq> [] \<or> FILES_audio_file req \<noteq> None"
  proof (rule ccontr)
    assume "\<not> ?thesis"
    with te have "fst (post env w req) = RedirectIndex" by (simp add: post_def Let_def)
    with assms show False by simp
  qed
  show ?thesis
  proof (rule post_run [OF te ne, of w])
    fix story w1 ok s2 w2 s3 w3 s4 w4
    assume id: "story_id story = uuid4 env (uuids w)"
      and u1: "uuids w1 = Suc (uuids w)"
      and au: "(case FILES_audio_file req of None \<Rightarrow> (True, story, w1)
                | Some a \<Rightarrow> handle_audio_input env w1 story a) = (ok, s2, w2)"
      and sv: "story_save w2 (s2\<lparr>status := Processing\<rparr>) = (s3, w3)"
      and ge: "generate_enhanced_story_content env w3 s3
         (option_default (ustr ''medium'') (POST_story_length req))
         (option_default (ustr ''realistic'') (POST_image_style req)) = (s4, w4)"
      and po: "post env w req =
         (if \<not> ok then (RedirectIndex, w2)
          else if status s4 = Error then
            (RedirectIndex,
             messages_add MsgError (ustr ''Generation error: '' @ error_message s4) w4)
          else
            (RedirectResult (story_id s4),
             messages_add MsgSuccess
               ([127881] @ ustr '' Enhanced story generated with Ollama + GPU!'') w4))"
    from assms po have ok: ok by (auto split: if_splits)
    from assms po ok have ne4: "status s4 \<noteq> Error" by (auto split: if_splits)
    from assms po ok ne4 have sid: "story_id s4 = sid" by simp
    have a2: "story_id s2 = story_id story \<and> uuids w2 = uuids w1"
    proof (cases "FILES_audio_file req")
      case None
      with au show ?thesis by simp
    next
      case (Some a)
      with au have h: "handle_audio_input env w1 story a = (ok, s2, w2)" by simp
      from handle_audio_input_keeps(1,4) [OF h] show ?thesis by simp
    qed
    from sv have a3: "story_id s3 = story_id s2 \<and> uuids w3 = uuids w2"
      by (auto simp: story_save_eq)
    note g = generation_keeps [OF ge]
    from g(6) ne4 have c: "status s4 = Completed" by simp
    have i4: "story_id s4 = story_id s3" by (rule g(1))
    have "sid = uuid4 env (uuids w) \<and> story_id s3 = sid
         \<and> status (fst (generate_enhanced_story_content env w3 s3
              (option_default (ustr ''medium'') (POST_story_length req))
              (option_default (ustr ''realistic'') (POST_image_style req)))) = Completed
         \<and> story_id (fst (generate_enhanced_story_content env w3 s3
              (option_default (ustr ''medium'') (POST_story_length req))
              (option_default (ustr ''realistic'') (POST_image_style req)))) = sid
         \<and> table (snd (post env w req))
             = table (snd (generate_enhanced_story_content env w3 s3
              (option_default (ustr ''medium'') (POST_story_length req))
              (option_default (ustr ''realistic'') (POST_image_style req))))
         \<and> media (snd (post env w req))
             = media (snd (generate_enhanced_story_content env w3 s3
              (option_default (ustr ''medium'') (POST_story_length req))
              (option_default (ustr ''realistic'') (POST_image_style req))))"
      using sid i4 a3 a2 id u1 c ok ne4 by (simp add: ge po)
    then show ?thesis by (intro exI)
  qed
qed

lemma post_succeeds:
  assumes "table_exists env" and "import_fault env = None"
    and "\<And>name. storage_fault env name = None"
    and "FILES_audio_file req = None"
    and "py_strip (option_default [] (POST_prompt req)) \<noteq> []"
  shows "fst (post env w req) = RedirectResult (uuid4 env (uuids w))"
proof -
  from assms(5) have ne: "py_strip (option_default [] (POST_prompt req)) \<noteq> []
      \<or> FILES_audio_file req \<noteq> None" by simp
  show ?thesis
  proof (rule post_run [OF assms(1) ne, of w])
    fix story w1 ok s2 w2 s3 w3 s4 w4
    assume id: "story_id story = uuid4 env (uuids w)"
      and pr: "prompt story = py_strip (option_default [] (POST_prompt req))"
      and im: "input_method story =
         (if FILES_audio_file req = None then TextInput
          else if py_strip (option_default [] (POST_prompt req)) = [] then AudioInput
          else BothInput)"
      and au: "(case FILES_audio_file req of None \<Rightarrow> (True, story, w1)
                | Some a \<Rightarrow> handle_audio_input env w1 story a) = (ok, s2, w2)"
      and sv: "story_save w2 (s2\<lparr>status := Processing\<rparr>) = (s3, w3)"
      and ge: "generate_enhanced_story_content env w3 s3
         (option_default (ustr ''medium'') (POST_story_length req))
         (option_default (ustr ''realistic'') (POST_image_style req)) = (s4, w4)"
      and po: "post env w req =
         (if \<not> ok then (RedirectIndex, w2)
          else if status s4 = Error then
            (RedirectIndex,
             messages_add MsgError (ustr ''Generation error: '' @ error_message s4) w4)
          else
            (RedirectResult (story_id s4),
             messages_add MsgSuccess
               ([127881] @ ustr '' Enhanced story generated with Ollama + GPU!'') w4))"
    from au assms(4) have e2: "ok" "s2 = story" by simp_all
    from sv have s3: "s3 = fst (save False (table w2) (s2\<lparr>status := Processing\<rparr>))"
      by (auto simp: story_save_eq)
    have i3: "get_input_text s3 \<noteq> []"
      using assms(4,5) pr im e2 by (simp add: s3 get_input_text_def)
    have "fst (try_generate env w3 s3
         (option_default (ustr ''medium'') (POST_story_length req))
         (option_default (ustr ''realistic'') (POST_image_style req))) = None"
      using assms(2,3) i3 by (rule try_generate_succeeds)
    then have "status (fst (generate_enhanced_story_content env w3 s3
         (option_default (ustr ''medium'') (POST_story_length req))
         (option_default (ustr ''realistic'') (POST_image_style req)))) = Completed"
      by (simp add: generation_status)
    then have c: "status s4 = Completed" by (simp add: ge)
    from generation_keeps(1) [OF ge] have "story_id s4 = story_id s2" by (simp add: s3)
    with e2 id c show ?thesis by (simp add: po)
  qed
qed

lemma generate_character_image_png: "fst (generate_character_image rt g d s) \<noteq> Unreadable"
  by (simp add: generate_character_image_def create_artistic_character_placeholder_def Let_def
        case_prod_beta split: sum.splits)

lemma generate_background_image_png: "fst (generate_background_image rt g d s) \<noteq> Unreadable"
  by (simp add: generate_background_image_def create_artistic_background_placeholder_def Let_def
        case_prod_beta split: sum.splits)

lemma generate_images_media:
  assumes "generate_images env w s image_style = (None, s2, w2)"
  shows "media w2 =
     (let char_name = story_image_path (uuid4 env (uuids w)) s
                        (ustr ''character_'' @ story_id s @ ustr ''.png'');
          bg_name = story_image_path (uuid4 env (Suc (uuids w))) s
                      (ustr ''background_'' @ story_id s @ ustr ''.png'');
          composed_name = story_image_path (uuid4 env (Suc (Suc (uuids w)))) s
                            (ustr ''composed_'' @ story_id s @ ustr ''.png'');
          (char_data, gen1) = generate_character_image (imaging env)
                                (GPUImageGenerator_init (imaging env))
                                (character_description s) image_style;
          (bg_data, gen2) = generate_background_image (imaging env) gen1
                              (background_description s) image_style;
          rendered = (bg_name, bg_data) # (char_name, char_data) # media w
      in (composed_name, compose_images (imaging env) rendered char_name bg_name) # rendered)"
  using assms
  by (auto simp: generate_images_def compose_scene_def field_file_save_cases Let_def
        case_prod_beta has_file_def story_image_path_nonempty
      split: option.splits if_splits)

lemma try_generate_media:
  assumes "try_generate env w story length_arg image_style = (None, s', w')"
  shows "media w' =
     (let char_name = story_image_path (uuid4 env (uuids w)) story
                        (ustr ''character_'' @ story_id story @ ustr ''.png'');
          bg_name = story_image_path (uuid4 env (Suc (uuids w))) story
                      (ustr ''background_'' @ story_id story @ ustr ''.png'');
          composed_name = story_image_path (uuid4 env (Suc (Suc (uuids w)))) story
                            (ustr ''composed_'' @ story_id story @ ustr ''.png'');
          (char_data, gen1) = generate_character_image (imaging env)
                                (GPUImageGenerator_init (imaging env))
                                (character_description s') image_style;
          (bg_data, gen2) = generate_background_image (imaging env) gen1
                              (background_description s') image_style;
          rendered = (bg_name, bg_data) # (char_name, char_data) # media w
      in (composed_name, compose_images (imaging env) rendered char_name bg_name) # rendered)"
proof -
  from assms obtain s1 w1 s2 w2 where
    gt: "generate_texts env w story (get_input_text story) length_arg = (s1, w1)" and
    gi: "generate_images env w1 s1 image_style = (None, s2, w2)" and
    sv: "story_save w2
           (s2\<lparr>image_model_used := ustr ''Stable Diffusion ('' @ image_style @ ustr '')'',
               status := Completed,
               generation_time := Some (clock env 1 - clock env 0)\<rparr>) = (s', w')"
    by (auto simp: try_generate_def Let_def split: option.splits if_splits prod.splits)
  note t = generate_texts_facts [OF gt]
  note i = generate_images_None [OF gi]
  from t have id: "story_id s1 = story_id story" and u: "uuids w1 = uuids w"
    and m: "media w1 = media w" by simp_all
  have p: "\<And>k f. story_image_path k s1 f = story_image_path k story f"
    using id by (rule story_image_path_id)
  from sv have s': "s' = fst (save False (table w2)
           (s2\<lparr>image_model_used := ustr ''Stable Diffusion ('' @ image_style @ ustr '')'',
               status := Completed,
               generation_time := Some (clock env 1 - clock env 0)\<rparr>))"
    and w': "media w' = media w2"
    by (auto simp: story_save_eq)
  have d: "character_description s' = character_description s1"
    "background_description s' = background_description s1"
    using i(7) by (simp_all add: s')
  show ?thesis
    unfolding w' generate_images_media [OF gi] by (simp add: p u id m d)
qed

text \<open>
  Claim C1, as amended. When \<open>_generate_enhanced_story_content\<close> leaves the record with
  status \<open>completed\<close>, the record holds a generated story text (of more than 100
  words), a character description and a background description, none of them empty,
  and a generation time, and the record is a row of the table. The generation has
  added exactly three files to the storage. Their saving was requested under the names
  \<open>character_<id>.png\<close>, \<open>background_<id>.png\<close> and \<open>composed_<id>.png\<close>; the storage
  keeps them under the names \<open>story_image_path\<close> makes of these,
  \<open>generated/stories/<id>/<uuid>.png\<close> with a fresh UUID each, and these are the names
  in the three image fields of the record. The first file holds the image rendered
  from the character description of the record, the second the image rendered from
  its background description, and the third the scene \<open>compose_images\<close> makes of the
  first two as they are stored; each of the three is a PNG image. A request for which
  \<open>post\<close> redirects to the result page is such a generation: its record has the key
  that \<open>post\<close> drew and status \<open>completed\<close>, and the table and the stored files after
  \<open>post\<close> are those the generation left.
\<close>

theorem completed_record:
  "(case generate_enhanced_story_content env w story length_arg image_style of
      (final, w') \<Rightarrow>
        status final = Completed \<longrightarrow>
          (let char_name = story_image_path (uuid4 env (uuids w)) story
                             (ustr ''character_'' @ story_id story @ ustr ''.png'');
               bg_name = story_image_path (uuid4 env (Suc (uuids w))) story
                           (ustr ''background_'' @ story_id story @ ustr ''.png'');
               composed_name = story_image_path (uuid4 env (Suc (Suc (uuids w)))) story
                                 (ustr ''composed_'' @ story_id story @ ustr ''.png'');
               (char_data, gen1) = generate_character_image (imaging env)
                                     (GPUImageGenerator_init (imaging env))
                                     (character_description final) image_style;
               (bg_data, gen2) = generate_background_image (imaging env) gen1
                                   (background_description final) image_style;
               rendered = (bg_name, bg_data) # (char_name, char_data) # media w;
               composed_data = compose_images (imaging env) rendered char_name bg_name
           in 100 < length (py_split (story_text final))
            \<and> character_description final \<noteq> []
            \<and> background_description final \<noteq> []
            \<and> character_image final = Some char_name
            \<and> background_image final = Some bg_name
            \<and> composed_image final = Some composed_name
            \<and> media w' = (composed_name, composed_data) # rendered
            \<and> char_data \<noteq> Unreadable
            \<and> bg_data \<noteq> Unreadable
            \<and> composed_data \<noteq> Unreadable
            \<and> generation_time final = Some (clock env 1 - clock env 0)
            \<and> final \<in> set (table w')))
   \<and> story_image_path u story (x @ ustr ''.png'')
       = path_join (path_join (ustr ''generated/stories'') (story_id story)) (u @ ustr ''.png'')
   \<and> (fst (post env v req) = RedirectResult sid \<longrightarrow>
        (\<exists>s3 w3 la st.
           sid = uuid4 env (uuids v) \<and> story_id s3 = sid
         \<and> status (fst (generate_enhanced_story_content env w3 s3 la st)) = Completed
         \<and> story_id (fst (generate_enhanced_story_content env w3 s3 la st)) = sid
         \<and> table (snd (post env v req))
             = table (snd (generate_enhanced_story_content env w3 s3 la st))
         \<and> media (snd (post env v req))
             = media (snd (generate_enhanced_story_content env w3 s3 la st))))"
proof -
  have a: "case generate_enhanced_story_content env w story length_arg image_style of
      (final, w') \<Rightarrow>
        status final = Completed \<longrightarrow>
          (let char_name = story_image_path (uuid4 env (uuids w)) story
                             (ustr ''character_'' @ story_id story @ ustr ''.png'');
               bg_name = story_image_path (uuid4 env (Suc (uuids w))) story
                           (ustr ''background_'' @ story_id story @ ustr ''.png'');
               composed_name = story_image_path (uuid4 env (Suc (Suc (uuids w)))) story
                                 (ustr ''composed_'' @ story_id story @ ustr ''.png'');
               (char_data, gen1) = generate_character_image (imaging env)
                                     (GPUImageGenerator_init (imaging env))
                                     (character_description final) image_style;
               (bg_data, gen2) = generate_background_image (imaging env) gen1
                                   (background_description final) image_style;
               rendered = (bg_name, bg_data) # (char_name, char_data) # media w;
               composed_data = compose_images (imaging env) rendered char_name bg_name
           in 100 < length (py_split (story_text final))
            \<and> character_description final \<noteq> []
            \<and> background_description final \<noteq> []
            \<and> character_image final = Some char_name
            \<and> background_image final = Some bg_name
            \<and> composed_image final = Some composed_name
            \<and> media w' = (composed_name, composed_data) # rendered
            \<and> char_data \<noteq> Unreadable
            \<and> bg_data \<noteq> Unreadable
            \<and> composed_data \<noteq> Unreadable
            \<and> generation_time final = Some (clock env 1 - clock env 0)
            \<and> final \<in> set (table w'))"
  proof (cases "generate_enhanced_story_content env w story length_arg image_style")
    case (Pair final w')
    show ?thesis
      unfolding Pair prod.case
    proof (rule impI)
      assume c: "status final = Completed"
      with Pair generation_completed [of env w story length_arg image_style]
      have t: "try_generate env w story length_arg image_style = (None, final, w')" by simp
      note f = try_generate_fields(1-6) [OF t]
      note n = try_generate_None [OF t]
      note m = try_generate_media [OF t]
      from f n m generate_character_image_png generate_background_image_png
        compose_images_png
      show "let char_name = story_image_path (uuid4 env (uuids w)) story
                             (ustr ''character_'' @ story_id story @ ustr ''.png'');
               bg_name = story_image_path (uuid4 env (Suc (uuids w))) story
                           (ustr ''background_'' @ story_id story @ ustr ''.png'');
               composed_name = story_image_path (uuid4 env (Suc (Suc (uuids w)))) story
                                 (ustr ''composed_'' @ story_id story @ ustr ''.png'');
               (char_data, gen1) = generate_character_image (imaging env)
                                     (GPUImageGenerator_init (imaging env))
                                     (character_description final) image_style;
               (bg_data, gen2) = generate_background_image (imaging env) gen1
                                   (background_description final) image_style;
               rendered = (bg_name, bg_data) # (char_name, char_data) # media w;
               composed_data = compose_images (imaging env) rendered char_name bg_name
           in 100 < length (py_split (story_text final))
            \<and> character_description final \<noteq> []
            \<and> background_description final \<noteq> []
            \<and> character_image final = Some char_name
            \<and> background_image final = Some bg_name
            \<and> composed_image final = Some composed_name
            \<and> media w' = (composed_name, composed_data) # rendered
            \<and> char_data \<noteq> Unreadable
            \<and> bg_data \<noteq> Unreadable
            \<and> composed_data \<noteq> Unreadable
            \<and> generation_time final = Some (clock env 1 - clock env 0)
            \<and> final \<in> set (table w')"
        by (simp add: Let_def case_prod_beta)
    qed
  qed
  have b: "story_image_path u story (x @ ustr ''.png'')
       = path_join (path_join (ustr ''generated/stories'') (story_id story)) (u @ ustr ''.png'')"
    by (rule story_image_path_png)
  have c: "fst (post env v req) = RedirectResult sid \<longrightarrow>
        (\<exists>s3 w3 la st.
           sid = uuid4 env (uuids v) \<and> story_id s3 = sid
         \<and> status (fst (generate_enhanced_story_content env w3 s3 la st)) = Completed
         \<and> story_id (fst (generate_enhanced_story_content env w3 s3 la st)) = sid
         \<and> table (snd (post env v req))
             = table (snd (generate_enhanced_story_content env w3 s3 la st))
         \<and> media (snd (post env v req))
             = media (snd (generate_enhanced_story_content env w3 s3 la st)))"
  proof (rule impI)
    assume "fst (post env v req) = RedirectResult sid"
    from post_result [OF this] obtain s3 w3 la st where
      "sid = uuid4 env (uuids v)" "story_id s3 = sid"
      "status (fst (generate_enhanced_story_content env w3 s3 la st)) = Completed"
      "story_id (fst (generate_enhanced_story_content env w3 s3 la st)) = sid"
      "table (snd (post env v req))
         = table (snd (generate_enhanced_story_content env w3 s3 la st))"
      "media (snd (post env v req))
         = media (snd (generate_enhanced_story_content env w3 s3 la st))"
      by (elim exE conjE) (rule that)
    then show "\<exists>s3 w3 la st.
           sid = uuid4 env (uuids v) \<and> story_id s3 = sid
         \<and> status (fst (generate_enhanced_story_content env w3 s3 la st)) = Completed
         \<and> story_id (fst (generate_enhanced_story_content env w3 s3 la st)) = sid
         \<and> table (snd (post env v req))
             = table (snd (generate_enhanced_story_content env w3 s3 la st))
         \<and> media (snd (post env v req))
             = media (snd (generate_enhanced_story_content env w3 s3 la st))"
      by (intro exI conjI)
  qed
  show ?thesis by (rule conjI [OF a conjI [OF b c]])
qed

lemma knight_completed:
  "status (fst (generate_enhanced_story_content offline_site knight_world knight_story
                 (ustr ''medium'') (ustr ''realistic''))) = Completed"
proof -
  have "fst (try_generate offline_site knight_world knight_story (ustr ''medium'')
               (ustr ''realistic'')) = None"
    using offline_site_no_faults(1,2) knight_input by (rule try_generate_succeeds)
  then show ?thesis by (simp add: generation_status)
qed

lemma knight_character_name:
  "story_image_path (uuid4 offline_site (uuids knight_world)) knight_story
     (ustr ''character_'' @ story_id knight_story @ ustr ''.png'')
   = ustr ''generated/stories/uuid-0/uuid-1.png''"
proof -
  have u: "uuid4 offline_site (uuids knight_world) = ustr ''uuid-1''"
    by (simp add: offline_site_def knight_world_def str_of_nat.simps [of "Suc 0"] ustr_def)
  have i: "story_id knight_story = ustr ''uuid-0''"
    by (simp add: knight_story_def StoryGeneration_init_def)
  have "path_join (path_join (ustr ''generated/stories'') (ustr ''uuid-0''))
          (ustr ''uuid-1'' @ ustr ''.png'') = ustr ''generated/stories/uuid-0/uuid-1.png''"
    by (simp add: path_join_def ustr_def)
  with story_image_path_png [of "ustr ''uuid-1''" knight_story
      "ustr ''character_'' @ ustr ''uuid-0''"]
  show ?thesis by (simp add: u i)
qed

text \<open>
  The claim as stated has the files saved under the names \<open>character_<id>.png\<close> and so
  on. For the story with key \<open>uuid-0\<close> the completed record names its character image
  \<open>generated/stories/uuid-0/uuid-1.png\<close>: of the requested name only the extension is
  kept.
\<close>

theorem stored_name_counterexample:
  "status (fst (generate_enhanced_story_content offline_site knight_world knight_story
                 (ustr ''medium'') (ustr ''realistic''))) = Completed
   \<and> character_image (fst (generate_enhanced_story_content offline_site knight_world
                 knight_story (ustr ''medium'') (ustr ''realistic'')))
       = Some (ustr ''generated/stories/uuid-0/uuid-1.png'')
   \<and> ustr ''generated/stories/uuid-0/uuid-1.png''
       \<noteq> ustr ''character_'' @ story_id knight_story @ ustr ''.png''"
proof -
  note c = knight_completed
  from generation_completed [OF c]
  have t: "try_generate offline_site knight_world knight_story (ustr ''medium'')
      (ustr ''realistic'')
      = (None, fst (generate_enhanced_story_content offline_site knight_world knight_story
                 (ustr ''medium'') (ustr ''realistic'')),
         snd (generate_enhanced_story_content offline_site knight_world knight_story
                 (ustr ''medium'') (ustr ''realistic'')))"
    by simp
  from try_generate_fields(4) [OF t]
  have n: "character_image (fst (generate_enhanced_story_content offline_site knight_world
                 knight_story (ustr ''medium'') (ustr ''realistic'')))
       = Some (ustr ''generated/stories/uuid-0/uuid-1.png'')"
    by (simp add: knight_character_name)
  have d: "ustr ''generated/stories/uuid-0/uuid-1.png''
       \<noteq> ustr ''character_'' @ story_id knight_story @ ustr ''.png''"
    by (simp add: ustr_def)
  from c n d show ?thesis by (intro conjI)
qed

lemma knight_background_name:
  "story_image_path (uuid4 offline_site (Suc (uuids knight_world))) knight_story
     (ustr ''background_'' @ story_id knight_story @ ustr ''.png'')
   = ustr ''generated/stories/uuid-0/uuid-2.png''"
proof -
  have u: "uuid4 offline_site (Suc (uuids knight_world)) = ustr ''uuid-2''"
    by (simp add: offline_site_def knight_world_def str_of_nat.simps [of "Suc (Suc 0)"] ustr_def)
  have i: "story_id knight_story = ustr ''uuid-0''"
    by (simp add: knight_story_def StoryGeneration_init_def)
  have "path_join (path_join (ustr ''generated/stories'') (ustr ''uuid-0''))
          (ustr ''uuid-2'' @ ustr ''.png'') = ustr ''generated/stories/uuid-0/uuid-2.png''"
    by (simp add: path_join_def ustr_def)
  with story_image_path_png [of "ustr ''uuid-2''" knight_story
      "ustr ''background_'' @ ustr ''uuid-0''"]
  show ?thesis by (simp add: u i)
qed

lemma knight_composed_name:
  "story_image_path (uuid4 offline_site (Suc (Suc (uuids knight_world)))) knight_story
     (ustr ''composed_'' @ story_id knight_story @ ustr ''.png'')
   = ustr ''generated/stories/uuid-0/uuid-3.png''"
proof -
  have u: "uuid4 offline_site (Suc (Suc (uuids knight_world))) = ustr ''uuid-3''"
    by (simp add: offline_site_def knight_world_def str_of_nat.simps [of "Suc (Suc (Suc 0))"]
          ustr_def)
  have i: "story_id knight_story = ustr ''uuid-0''"
    by (simp add: knight_story_def StoryGeneration_init_def)
  have "path_join (path_join (ustr ''generated/stories'') (ustr ''uuid-0''))
          (ustr ''uuid-3'' @ ustr ''.png'') = ustr ''generated/stories/uuid-0/uuid-3.png''"
    by (simp add: path_join_def ustr_def)
  with story_image_path_png [of "ustr ''uuid-3''" knight_story
      "ustr ''composed_'' @ ustr ''uuid-0''"]
  show ?thesis by (simp add: u i)
qed

lemma cpu_character_image:
  "generate_character_image cpu_runtime (GPUImageGenerator_init cpu_runtime) d s
     = (create_artistic_character_placeholder cpu_runtime d, GPUImageGenerator_init cpu_runtime)"
  by (simp add: generate_character_image_def cpu_runtime_unavailable)

lemma cpu_background_image:
  "generate_background_image cpu_runtime (GPUImageGenerator_init cpu_runtime) d s
     = (create_artistic_background_placeholder cpu_runtime d, GPUImageGenerator_init cpu_runtime)"
  by (simp add: generate_background_image_def cpu_runtime_unavailable)

lemma data_size_Some: "data_size d = Some sz \<Longrightarrow> \<exists>img. d = PNG img \<and> size_of img = sz"
  by (cases d) (simp_all add: data_size_def)

lemma composable_placeholders:
  assumes "n1 \<noteq> n2"
  shows "composable cpu_runtime
           [(n2, create_artistic_background_placeholder cpu_runtime bd),
            (n1, create_artistic_character_placeholder cpu_runtime cd)] n1 n2"
proof -
  from data_size_Some [OF data_size_character_placeholder [of cpu_runtime cd]]
  obtain ci where c: "create_artistic_character_placeholder cpu_runtime cd = PNG ci"
    and cs: "size_of ci = (512, 512)" by blast
  from data_size_Some [OF data_size_background_placeholder [of cpu_runtime bd]]
  obtain bi where b: "create_artistic_background_placeholder cpu_runtime bd = PNG bi"
    and bs: "size_of bi = (768, 512)" by blast
  have r: "resize_fault cpu_runtime 409 409 = None" by (simp add: cpu_runtime_def)
  show ?thesis
    using assms
    by (simp add: composable_def image_open_def c b cs bs scale_width_square r Let_def)
qed

theorem completed_record_witness:
  "character_image (fst (generate_enhanced_story_content offline_site knight_world
                 knight_story (ustr ''medium'') (ustr ''realistic'')))
       = Some (ustr ''generated/stories/uuid-0/uuid-1.png'')
   \<and> generation_time (fst (generate_enhanced_story_content offline_site knight_world
                 knight_story (ustr ''medium'') (ustr ''realistic''))) = Some 1
   \<and> 100 < length (py_split (story_text (fst (generate_enhanced_story_content offline_site
                 knight_world knight_story (ustr ''medium'') (ustr ''realistic'')))))
   \<and> map fst (media (snd (generate_enhanced_story_content offline_site knight_world
                 knight_story (ustr ''medium'') (ustr ''realistic''))))
       = [ustr ''generated/stories/uuid-0/uuid-3.png'',
          ustr ''generated/stories/uuid-0/uuid-2.png'',
          ustr ''generated/stories/uuid-0/uuid-1.png'']
   \<and> map (\<lambda>f. data_size (snd f))
         (media (snd (generate_enhanced_story_content offline_site knight_world
                 knight_story (ustr ''medium'') (ustr ''realistic''))))
       = [Some (768, 512), Some (768, 512), Some (512, 512)]
   \<and> composable cpu_runtime
         (tl (media (snd (generate_enhanced_story_content offline_site knight_world
                 knight_story (ustr ''medium'') (ustr ''realistic'')))))
         (ustr ''generated/stories/uuid-0/uuid-1.png'')
         (ustr ''generated/stories/uuid-0/uuid-2.png'')
   \<and> (\<exists>s3 w3 la st.
         story_id s3 = uuid4 offline_site (uuids empty_world)
       \<and> status (fst (generate_enhanced_story_content offline_site w3 s3 la st)) = Completed
       \<and> table (snd (post offline_site empty_world text_request))
           = table (snd (generate_enhanced_story_content offline_site w3 s3 la st)))"
proof -
  let ?G = "generate_enhanced_story_content offline_site knight_world knight_story
              (ustr ''medium'') (ustr ''realistic'')"
  let ?n1 = "ustr ''generated/stories/uuid-0/uuid-1.png''"
  let ?n2 = "ustr ''generated/stories/uuid-0/uuid-2.png''"
  let ?n3 = "ustr ''generated/stories/uuid-0/uuid-3.png''"
  let ?ch = "create_artistic_character_placeholder cpu_runtime (character_description (fst ?G))"
  let ?bg = "create_artistic_background_placeholder cpu_runtime
               (background_description (fst ?G))"
  note t = completed_record [where env = offline_site and w = knight_world
      and story = knight_story and length_arg = "ustr ''medium''"
      and image_style = "ustr ''realistic''" and u = "[]" and x = "[]"
      and v = empty_world and req = text_request
      and sid = "uuid4 offline_site (uuids empty_world)"]
  have c: "status (fst ?G) = Completed" by (rule knight_completed)
  have k: "clock offline_site 1 - clock offline_site 0 = 1" by (simp add: offline_site_def)
  have im: "imaging offline_site = cpu_runtime" by (simp add: offline_site_def)
  have mk: "media knight_world = []" by (simp add: knight_world_def empty_world_def)
  from t c have 1: "character_image (fst ?G) = Some ?n1"
    and 2: "generation_time (fst ?G) = Some (clock offline_site 1 - clock offline_site 0)"
    and 3: "100 < length (py_split (story_text (fst ?G)))"
    and m: "media (snd ?G)
        = [(?n3, compose_images cpu_runtime [(?n2, ?bg), (?n1, ?ch)] ?n1 ?n2),
           (?n2, ?bg), (?n1, ?ch)]"
    by (simp_all add: case_prod_beta Let_def knight_character_name knight_background_name
          knight_composed_name im mk cpu_character_image cpu_background_image)
  have ne: "?n1 \<noteq> ?n2" by (simp add: ustr_def)
  have co: "composable cpu_runtime [(?n2, ?bg), (?n1, ?ch)] ?n1 ?n2"
    using ne by (rule composable_placeholders)
  from data_size_Some [OF data_size_background_placeholder
      [of cpu_runtime "background_description (fst ?G)"]]
  obtain bi where b: "?bg = PNG bi" and bs: "size_of bi = (768, 512)" by blast
  from data_size_Some [OF data_size_character_placeholder
      [of cpu_runtime "character_description (fst ?G)"]]
  obtain ci where ci: "?ch = PNG ci" by blast
  have ob: "image_open [(?n2, ?bg), (?n1, ?ch)] ?n2 = Inr (Convert bi RGBA)"
    by (simp add: image_open_def b)
  have oc: "image_open [(?n2, ?bg), (?n1, ?ch)] ?n1 = Inr (Convert ci RGBA)"
    using ne by (simp add: image_open_def ci)
  have ds: "data_size (compose_images cpu_runtime [(?n2, ?bg), (?n1, ?ch)] ?n1 ?n2)
      = Some (768, 512)"
    by (simp add: compose_images_composable [OF oc ob co] data_size_def bs)
  have 5: "map (\<lambda>f. data_size (snd f)) (media (snd ?G))
       = [Some (768, 512), Some (768, 512), Some (512, 512)]"
    by (simp add: m ds data_size_character_placeholder data_size_background_placeholder)
  have 4: "map fst (media (snd ?G)) = [?n3, ?n2, ?n1]" by (simp add: m)
  have 6: "composable cpu_runtime (tl (media (snd ?G))) ?n1 ?n2" using co by (simp add: m)
  have "py_strip (option_default [] (POST_prompt text_request)) = ustr ''A Knight''"
    by (simp add: text_request_def option_default_def strip_knight)
  then have p: "py_strip (option_default [] (POST_prompt text_request)) \<noteq> []"
    by (simp add: ustr_def)
  have a: "FILES_audio_file text_request = None" by (simp add: text_request_def)
  have r: "fst (post offline_site empty_world text_request)
      = RedirectResult (uuid4 offline_site (uuids empty_world))"
    using offline_site_no_faults(3,1,2) a p by (rule post_succeeds)
  from t r have "\<exists>s3 w3 la st.
           uuid4 offline_site (uuids empty_world) = uuid4 offline_site (uuids empty_world)
         \<and> story_id s3 = uuid4 offline_site (uuids empty_world)
         \<and> status (fst (generate_enhanced_story_content offline_site w3 s3 la st)) = Completed
         \<and> story_id (fst (generate_enhanced_story_content offline_site w3 s3 la st))
             = uuid4 offline_site (uuids empty_world)
         \<and> table (snd (post offline_site empty_world text_request))
             = table (snd (generate_enhanced_story_content offline_site w3 s3 la st))
         \<and> media (snd (post offline_site empty_world text_request))
             = media (snd (generate_enhanced_story_content offline_site w3 s3 la st))"
    by (elim conjE) (erule mp)
  then obtain s3 w3 la st where
    "story_id s3 = uuid4 offline_site (uuids empty_world)
       \<and> status (fst (generate_enhanced_story_content offline_site w3 s3 la st)) = Completed
       \<and> table (snd (post offline_site empty_world text_request))
           = table (snd (generate_enhanced_story_content offline_site w3 s3 la st))"
    by (elim exE conjE) (intro that conjI)
  then have 7: "\<exists>s3 w3 la st.
         story_id s3 = uuid4 offline_site (uuids empty_world)
       \<and> status (fst (generate_enhanced_story_content offline_site w3 s3 la st)) = Completed
       \<and> table (snd (post offline_site empty_world text_request))
           = table (snd (generate_enhanced_story_content offline_site w3 s3 la st))"
    by (intro exI)
  from 2 k have g: "generation_time (fst ?G) = Some 1" by simp
  show ?thesis by (rule conjI [OF 1 conjI [OF g conjI [OF 3 conjI [OF 4 conjI [OF 5
        conjI [OF 6 7]]]]]])
qed

end
